theory Spec2Isabelle
  imports Complex_Main
begin

section \<open>The command-line controller of shell-gpt (sgpt/app.py)\<close>

text \<open>
  The module drives three collaborators that are not part of it: the completion client
  (\<^verbatim>\<open>OpenAIClient\<close>, with its chat cache), the prompt builder (\<^verbatim>\<open>make_prompt\<close>)
  and the terminal (\<^verbatim>\<open>typer\<close>, \<^verbatim>\<open>rich\<close>, \<^verbatim>\<open>os.system\<close>). The collaborators
  are parameters of the model; every call the module makes to the outside is recorded, in
  order, as an event of a trace, and every exception is a value of the sum type.
\<close>

subsection \<open>Data\<close>

text \<open>
  The exceptions that leave the module: the two click errors it raises itself
  (\<^verbatim>\<open>BadParameter(message)\<close>, \<^verbatim>\<open>MissingParameter(param_hint, param_type)\<close>), the
  \<^verbatim>\<open>IndexError\<close> of \<^verbatim>\<open>chat_history[0]\<close> on an empty list, and the \<^verbatim>\<open>Abort\<close> that
  \<^verbatim>\<open>typer.prompt\<close> and \<^verbatim>\<open>typer.confirm\<close> raise when the input is closed or interrupted.
\<close>

datatype error =
    BadParameter string
  | MissingParameter string string
  | IndexError
  | Abort

text \<open>One element of the \<^verbatim>\<open>messages\<close> list: \<^verbatim>\<open>{"role": ..., "content": ...}\<close>.\<close>

record message =
  role :: string
  content :: string

text \<open>The keyword arguments of \<^verbatim>\<open>client.get_completion\<close>.\<close>

record request =
  messages :: "message list"
  model :: string
  temperature :: real
  top_probability :: real
  caching :: bool
  chat_id :: "string option"

text \<open>
  What the module does to the outside world, one event per call:
  \<^item> \<open>EchoChatIds\<close>: \<^verbatim>\<open>echo_chat_ids()\<close>;
  \<^item> \<open>EditedPrompt\<close>: \<^verbatim>\<open>get_edited_prompt()\<close>;
  \<^item> \<open>PrintRule title\<close>: \<^verbatim>\<open>rich_print(Rule(title=..., style="bold magenta"))\<close>;
  \<^item> \<open>EchoChatMessages chat_id shell code\<close>: \<^verbatim>\<open>echo_chat_messages(chat_id, shell, code)\<close>;
  \<^item> \<open>Echo text\<close>: \<^verbatim>\<open>typer.echo(text)\<close>, with the empty text for \<^verbatim>\<open>typer.echo()\<close>;
  \<^item> \<open>Prompt text err\<close>: \<^verbatim>\<open>typer.prompt(text, err=err)\<close> asks; \<open>Input line\<close>: the line
    it returns;
  \<^item> \<open>Confirm text\<close>: \<^verbatim>\<open>typer.confirm(text)\<close> asks; \<open>Answer b\<close>: the reply it returns;
  \<^item> \<open>ClientGetCompletion api_host api_key req\<close>:
    \<^verbatim>\<open>OpenAIClient(api_host, api_key).get_completion(**req)\<close>;
  \<^item> \<open>Secho word\<close>: \<^verbatim>\<open>typer.secho(word, fg="magenta", bold=True, nl=False)\<close>;
    \<open>SechoNewline\<close>: \<^verbatim>\<open>typer.secho()\<close>;
  \<^item> \<open>RichPrint text\<close>: \<^verbatim>\<open>rich_print(text, end="")\<close>;
  \<^item> \<open>System command\<close>: \<^verbatim>\<open>os.system(command)\<close>.
\<close>

datatype event =
    EchoChatIds
  | EditedPrompt
  | PrintRule "string option"
  | EchoChatMessages string bool bool
  | Echo string
  | Prompt string bool
  | Input string
  | Confirm string
  | Answer bool
  | ClientGetCompletion string string request
  | Secho string
  | SechoNewline
  | RichPrint string
  | System string

text \<open>
  The terminal: the lines the user will still type at \<^verbatim>\<open>typer.prompt\<close>, the replies the
  user will still give to \<^verbatim>\<open>typer.confirm\<close>, and the trace of events so far (oldest
  first). The user's input is a finite list: where it ends, the input is closed or the
  process is interrupted. An interactive session that goes on is any of its finite
  beginnings.
\<close>

record world =
  stdin :: "string list"
  answers :: "bool list"
  trace :: "event list"

text \<open>
  The collaborators. \<open>config_get\<close> is \<^verbatim>\<open>config.get\<close>; \<open>chat_exists\<close> and
  \<open>get_messages\<close> are \<^verbatim>\<open>OpenAIClient.chat_cache.exists\<close> and \<^verbatim>\<open>.get_messages\<close> (the
  stored messages are strings: the module calls \<^verbatim>\<open>endswith\<close> on the first one);
  \<open>make_prompt_initial\<close> and \<open>make_prompt_chat_mode\<close> are \<^verbatim>\<open>make_prompt.initial\<close> and
  \<^verbatim>\<open>make_prompt.chat_mode\<close> (the first receives \<^verbatim>\<open>main\<close>'s optional prompt as it is);
  \<open>client_get_completion\<close> is the list of fragments the client yields for a request, which
  may depend on everything that happened before; \<open>get_edited_prompt\<close> is the text that
  comes back from the editor.
\<close>

record env =
  config_get :: "string \<Rightarrow> string"
  chat_exists :: "string \<Rightarrow> bool"
  get_messages :: "string \<Rightarrow> string list"
  make_prompt_initial :: "string option \<Rightarrow> bool \<Rightarrow> bool \<Rightarrow> string"
  make_prompt_chat_mode :: "string \<Rightarrow> bool \<Rightarrow> bool \<Rightarrow> string"
  client_get_completion :: "event list \<Rightarrow> request \<Rightarrow> string list"
  get_edited_prompt :: string

type_synonym 'a outcome = "(error + 'a) \<times> world"

subsection \<open>Python and terminal primitives\<close>

text \<open>\<^verbatim>\<open>not x\<close> for an optional string: true for \<^verbatim>\<open>None\<close> and for the empty string.\<close>

definition py_not :: "string option \<Rightarrow> bool" where
  "py_not x = (case x of None \<Rightarrow> True | Some s \<Rightarrow> s = [])"

text \<open>\<^verbatim>\<open>s.endswith(suffix)\<close>.\<close>

definition endswith :: "string \<Rightarrow> string \<Rightarrow> bool" where
  "endswith s suf = (length suf \<le> length s \<and> drop (length s - length suf) s = suf)"

text \<open>The two literals \<^verbatim>\<open>"###\nCommand:"\<close> and \<^verbatim>\<open>"###\nCode:"\<close> of lines 68 and 69.\<close>

definition shell_sentinel :: string where
  "shell_sentinel = ''###'' @ [CHR 0x0A] @ ''Command:''"

definition code_sentinel :: string where
  "code_sentinel = ''###'' @ [CHR 0x0A] @ ''Code:''"

definition emit :: "event \<Rightarrow> world \<Rightarrow> world" where
  "emit e w = w\<lparr>trace := trace w @ [e]\<rparr>"

text \<open>
  \<^verbatim>\<open>typer.prompt(text, err=err)\<close>, called without a default as on lines 82, 105 and 113.
  It is click's loop \<^verbatim>\<open>while True: value = prompt_func(prompt); if value: break\<close>: it
  shows the text and reads a line, again and again until the line is not empty, and
  returns that line as it is. One call may so consume several lines. Reading where the
  input has ended raises \<^verbatim>\<open>Abort\<close>.
\<close>

function typer_prompt :: "string \<Rightarrow> bool \<Rightarrow> world \<Rightarrow> string outcome" where
  "typer_prompt text err w =
     (case stdin w of
        [] \<Rightarrow> (Inl Abort, emit (Prompt text err) w)
      | line # rest \<Rightarrow>
          (let w' = emit (Input line) (emit (Prompt text err) (w\<lparr>stdin := rest\<rparr>))
           in if line = [] then typer_prompt text err w' else (Inr line, w')))"
  by pat_completeness auto
termination
  by (relation "measure (\<lambda>(text, err, w). length (stdin w))") (simp_all add: emit_def)

declare typer_prompt.simps [simp del]

text \<open>\<^verbatim>\<open>typer.confirm(text)\<close>: asks, then returns the user's next yes/no reply.\<close>

definition typer_confirm :: "string \<Rightarrow> world \<Rightarrow> bool outcome" where
  "typer_confirm text w =
     (case answers w of
        [] \<Rightarrow> (Inl Abort, emit (Confirm text) w)
      | b # rest \<Rightarrow>
          (Inr b, emit (Answer b) (emit (Confirm text) (w\<lparr>answers := rest\<rparr>))))"

subsection \<open>\<^verbatim>\<open>get_completion\<close> (lines 31 to 48)\<close>

definition get_completion ::
  "env \<Rightarrow> message list \<Rightarrow> real \<Rightarrow> real \<Rightarrow> bool \<Rightarrow> string option \<Rightarrow> world
     \<Rightarrow> string list \<times> world" where
  "get_completion env msgs temp top_p cach chat w =
     (let api_host = config_get env ''OPENAI_API_HOST'';
          api_key = config_get env ''OPENAI_API_KEY'';
          req = \<lparr>messages = msgs, model = ''gpt-3.5-turbo'', temperature = temp,
                 top_probability = top_p, caching = cach, chat_id = chat\<rparr>
      in (client_get_completion env (trace w) req,
          emit (ClientGetCompletion api_host api_key req) w))"

subsection \<open>The streaming loop (lines 97 to 100 and 153 to 156)\<close>

text \<open>
  \<^verbatim>\<open>for word in completion: typer.secho(word, ...); full_completion += word\<close>, with the
  buffer as an accumulator.
\<close>

fun stream_words :: "string list \<Rightarrow> string \<Rightarrow> world \<Rightarrow> string \<times> world" where
  "stream_words [] full_completion w = (full_completion, w)"
| "stream_words (word # rest) full_completion w =
     stream_words rest (full_completion @ word) (emit (Secho word) w)"

subsection \<open>\<^verbatim>\<open>chat_mode\<close> (lines 51 to 116)\<close>

text \<open>
  The block under \<^verbatim>\<open>if exists:\<close> (lines 62 to 79). It returns the pair
  \<^verbatim>\<open>(shell, code)\<close> assigned on line 79.
\<close>

definition resume_chat :: "env \<Rightarrow> string \<Rightarrow> bool \<Rightarrow> bool \<Rightarrow> world \<Rightarrow> (bool \<times> bool) outcome" where
  "resume_chat env chat shell code w =
     (let chat_history = get_messages env chat;
          w = emit (PrintRule (Some ''Chat History'')) w;
          w = emit (EchoChatMessages chat shell code) w;
          w = emit (PrintRule None) w;
          w = emit (Echo []) w
      in case chat_history of
           [] \<Rightarrow> (Inl IndexError, w)
         | first # _ \<Rightarrow>
             (let is_shell_chat = endswith first shell_sentinel;
                  is_code_chat = endswith first code_sentinel
              in if is_shell_chat \<and> code then
                   (Inl (BadParameter (''Chat id:'' @ chat @
                      '' was initiated as shell assistant, can be used with --shell only'')), w)
                 else if is_code_chat \<and> shell then
                   (Inl (BadParameter (''Chat id:'' @ chat @
                      '' was initiated as code assistant, can be used with --code only'')), w)
                 else (Inr (is_shell_chat, is_code_chat), w)))"

text \<open>
  One pass through the body of \<^verbatim>\<open>while True:\<close> (lines 90 to 116). It returns the value
  of \<^verbatim>\<open>prompt\<close> for the next pass.
\<close>

definition chat_turn ::
  "env \<Rightarrow> real \<Rightarrow> real \<Rightarrow> string \<Rightarrow> bool \<Rightarrow> bool \<Rightarrow> bool \<Rightarrow> string \<Rightarrow> world \<Rightarrow> string outcome" where
  "chat_turn env temp top_p chat shell code cache prompt w =
     (let (completion, w) =
            get_completion env [\<lparr>role = ''user'', content = prompt\<rparr>] temp top_p cache (Some chat) w;
          (full_completion, w) = stream_words completion [] w;
          w = emit SechoNewline w;
          prompt_text =
            (if shell then ''Revise or [bold magenta][E][/bold magenta]xecute'' else ''Prompt'');
          w = emit (RichPrint prompt_text) w
      in case typer_prompt [] False w of
           (Inl e, w) \<Rightarrow> (Inl e, w)
         | (Inr prompt, w) \<Rightarrow>
             (case (if shell then
                      (if prompt = ''execute'' \<or> prompt = ''e'' then
                         (let w = emit (Echo []) w;
                              w = emit (System full_completion) w;
                              w = emit (Echo []) w;
                              w = emit (PrintRule None) w
                          in typer_prompt ''Enter your prompt'' True w)
                       else (Inr prompt, w))
                    else (Inr prompt, w)) of
                (Inl e, w) \<Rightarrow> (Inl e, w)
              | (Inr prompt, w) \<Rightarrow> (Inr (make_prompt_chat_mode env prompt shell code), w)))"

text \<open>
  \<^verbatim>\<open>while True:\<close> (line 89). The loop has no \<^verbatim>\<open>break\<close> and no \<^verbatim>\<open>return\<close>: a pass
  either raises or is followed by the next pass. Every pass that does not raise has read a
  line, so the recursion ends when the input does.
\<close>

function chat_loop ::
  "env \<Rightarrow> real \<Rightarrow> real \<Rightarrow> string \<Rightarrow> bool \<Rightarrow> bool \<Rightarrow> bool \<Rightarrow> string \<Rightarrow> world \<Rightarrow> unit outcome" where
  "chat_loop env temp top_p chat shell code cache prompt w =
     (case chat_turn env temp top_p chat shell code cache prompt w of
        (Inl e, w') \<Rightarrow> (Inl e, w')
      | (Inr prompt', w') \<Rightarrow> chat_loop env temp top_p chat shell code cache prompt' w')"
  by pat_completeness auto
termination
proof (relation "measure (\<lambda>(env, temp, top_p, chat, shell, code, cache, prompt, w). length (stdin w))")
  show "wf (measure (\<lambda>(env, temp, top_p, chat, shell, code, cache, prompt, w). length (stdin w)))"
    by simp
next
  fix env :: env and temp top_p :: real and chat prompt prompt' :: string
    and shell code cache :: bool and w w' :: world and r :: "error + string"
  assume turn: "(r, w') = chat_turn env temp top_p chat shell code cache prompt w"
    and r: "r = Inr prompt'"
  have streamed: "stdin (snd (stream_words frags full v)) = stdin v" for frags full v
    by (induction frags arbitrary: full v) (simp_all add: emit_def)
  have stream: "stdin x2 = stdin v" if "stream_words frags full v = (x1, x2)" for frags full v x1 x2
    using streamed [of frags full v] that by simp
  have asked: "typer_prompt msg err v = (Inr line, v') \<Longrightarrow> length (stdin v') < length (stdin v)"
    for msg err v line v'
  proof (induction msg err v rule: typer_prompt.induct)
    case (1 msg err v)
    show ?case
    proof (cases "stdin v")
      case Nil
      with "1.prems" show ?thesis by (simp add: typer_prompt.simps [of msg err v])
    next
      case (Cons l ls)
      show ?thesis
      proof (cases "l = []")
        case True
        with "1.prems" Cons
        have "typer_prompt msg err (emit (Input l) (emit (Prompt msg err) (v\<lparr>stdin := ls\<rparr>)))
            = (Inr line, v')"
          by (simp add: typer_prompt.simps [of msg err v] Let_def)
        from "1.IH" [OF Cons refl True this] Cons show ?thesis
          by (simp add: emit_def)
      next
        case False
        with "1.prems" Cons show ?thesis
          by (auto simp: typer_prompt.simps [of msg err v] Let_def emit_def)
      qed
    qed
  qed
  from turn r have "length (stdin w') < length (stdin w)"
    by (auto simp: chat_turn_def get_completion_def emit_def Let_def
             split: if_splits prod.splits sum.splits
             dest!: stream asked)
  then show "((env, temp, top_p, chat, shell, code, cache, prompt', w'),
              (env, temp, top_p, chat, shell, code, cache, prompt, w))
             \<in> measure (\<lambda>(env, temp, top_p, chat, shell, code, cache, prompt, w). length (stdin w))"
    by simp
qed

declare chat_loop.simps [simp del]

text \<open>
  Lines 81 to 116: what \<^verbatim>\<open>chat_mode\<close> does after the block under \<^verbatim>\<open>if exists:\<close>,
  with \<open>shell\<close> and \<open>code\<close> as they are after line 79. The argument \<open>prompt\<close> is
  \<^verbatim>\<open>main\<close>'s optional prompt; after lines 81 to 84 it is a string.
\<close>

definition chat_session ::
  "env \<Rightarrow> bool \<Rightarrow> string option \<Rightarrow> real \<Rightarrow> real \<Rightarrow> string \<Rightarrow> bool \<Rightarrow> bool \<Rightarrow> bool \<Rightarrow> world
     \<Rightarrow> unit outcome" where
  "chat_session env exists prompt temp top_p chat shell code cache w =
     (case (case prompt of
              None \<Rightarrow> typer_prompt ''Enter your prompt'' True w
            | Some p \<Rightarrow>
                if p = [] then typer_prompt ''Enter your prompt'' True w
                else (Inr p, emit (Echo p) w)) of
        (Inl e, w) \<Rightarrow> (Inl e, w)
      | (Inr prompt, w) \<Rightarrow>
          (let prompt =
                 (if exists then make_prompt_chat_mode env prompt shell code
                  else make_prompt_initial env (Some prompt) shell code)
           in chat_loop env temp top_p chat shell code cache prompt w))"

text \<open>\<^verbatim>\<open>chat_mode\<close> (lines 51 to 116).\<close>

definition chat_mode ::
  "env \<Rightarrow> string option \<Rightarrow> real \<Rightarrow> real \<Rightarrow> string \<Rightarrow> bool \<Rightarrow> bool \<Rightarrow> bool \<Rightarrow> world \<Rightarrow> unit outcome" where
  "chat_mode env prompt temp top_p chat shell code cache w =
     (let exists = chat_exists env chat
      in case (if exists then resume_chat env chat shell code w else (Inr (shell, code), w)) of
           (Inl e, w) \<Rightarrow> (Inl e, w)
         | (Inr (shell, code), w) \<Rightarrow>
             chat_session env exists prompt temp top_p chat shell code cache w)"

subsection \<open>\<^verbatim>\<open>main\<close> (lines 119 to 159)\<close>

text \<open>
  \<^verbatim>\<open>if chat:\<close> is false for \<^verbatim>\<open>None\<close> and for the empty string. Were \<^verbatim>\<open>chat_mode\<close>
  to return, \<^verbatim>\<open>main\<close> would go on with line 140.
\<close>

definition main ::
  "env \<Rightarrow> string option \<Rightarrow> real \<Rightarrow> real \<Rightarrow> string option \<Rightarrow> bool \<Rightarrow> bool \<Rightarrow> bool \<Rightarrow> bool \<Rightarrow> bool
     \<Rightarrow> world \<Rightarrow> unit outcome" where
  "main env prompt temp top_p chat list_chat shell code editor cache w =
     (if list_chat then (Inr (), emit EchoChatIds w)
      else
        (let (prompt, w) =
               (if editor then (Some (get_edited_prompt env), emit EditedPrompt w) else (prompt, w))
         in case (case chat of
                    None \<Rightarrow> (Inr (), w)
                  | Some c \<Rightarrow>
                      if c = [] then (Inr (), w)
                      else chat_mode env prompt temp top_p c shell code cache w) of
              (Inl e, w) \<Rightarrow> (Inl e, w)
            | (Inr _, w) \<Rightarrow>
                if py_not prompt \<and> \<not> editor then (Inl (MissingParameter ''PROMPT'' ''string''), w)
                else
                  (let prompt = make_prompt_initial env prompt shell code;
                       (completion, w) =
                         get_completion env [\<lparr>role = ''user'', content = prompt\<rparr>] temp top_p cache chat w;
                       (full_completion, w) = stream_words completion [] w;
                       w = emit SechoNewline w
                   in if \<not> code \<and> shell then
                        (case typer_confirm ''Execute shell command?'' w of
                           (Inl e, w) \<Rightarrow> (Inl e, w)
                         | (Inr yes, w) \<Rightarrow>
                             if yes then (Inr (), emit (System full_completion) w) else (Inr (), w))
                      else (Inr (), w))))"

subsection \<open>\<^verbatim>\<open>entry_point\<close> (lines 162 to 164)\<close>

text \<open>
  \<^verbatim>\<open>typer.run(main)\<close> is the library's runner (click's standalone mode). Before it
  calls \<^verbatim>\<open>main\<close> it checks the ranges declared on lines 121 and 122, \<^verbatim>\<open>min=0.0, max=1.0\<close>
  for the temperature and \<^verbatim>\<open>min=0.1, max=1.0\<close> for the top probability; a value out of
  range is a usage error, and the process exits with status 2 without running \<^verbatim>\<open>main\<close>.
  Otherwise it turns the way \<^verbatim>\<open>main\<close> ends into the exit status of the process: 0 when
  \<^verbatim>\<open>main\<close> returns; the \<^verbatim>\<open>exit_code\<close> of a click usage error, which is 2 for
  \<^verbatim>\<open>BadParameter\<close> and for \<^verbatim>\<open>MissingParameter\<close>; 1 for \<^verbatim>\<open>Abort\<close>; and 1 for an
  exception that is not click's, which leaves the interpreter with a traceback.
\<close>

definition exit_status :: "error + unit \<Rightarrow> nat" where
  "exit_status r =
     (case r of
        Inr _ \<Rightarrow> 0
      | Inl e \<Rightarrow>
          (case e of
             BadParameter _ \<Rightarrow> 2
           | MissingParameter _ _ \<Rightarrow> 2
           | IndexError \<Rightarrow> 1
           | Abort \<Rightarrow> 1))"

definition in_range :: "real \<Rightarrow> real \<Rightarrow> bool" where
  "in_range temp top_p = (0 \<le> temp \<and> temp \<le> 1 \<and> 1 / 10 \<le> top_p \<and> top_p \<le> 1)"

definition entry_point ::
  "env \<Rightarrow> string option \<Rightarrow> real \<Rightarrow> real \<Rightarrow> string option \<Rightarrow> bool \<Rightarrow> bool \<Rightarrow> bool \<Rightarrow> bool \<Rightarrow> bool
     \<Rightarrow> world \<Rightarrow> nat \<times> world" where
  "entry_point env prompt temp top_p chat list_chat shell code editor cache w =
     (if in_range temp top_p then
        (case main env prompt temp top_p chat list_chat shell code editor cache w of
           (r, w') \<Rightarrow> (exit_status r, w'))
      else (2, w))"

subsection \<open>Observations on traces\<close>

text \<open>The request that \<^verbatim>\<open>get_completion\<close> sends for one user message.\<close>

definition user_request :: "real \<Rightarrow> real \<Rightarrow> bool \<Rightarrow> string option \<Rightarrow> string \<Rightarrow> request" where
  "user_request temp top_p cach chat prompt =
     \<lparr>messages = [\<lparr>role = ''user'', content = prompt\<rparr>], model = ''gpt-3.5-turbo'',
      temperature = temp, top_probability = top_p, caching = cach, chat_id = chat\<rparr>"

text \<open>
  The events of one request and its streamed response, after the trace \<open>tr\<close>: the call of
  the client, one \<open>Secho\<close> for each fragment the client yields, and the closing newline.
\<close>

definition exchange :: "env \<Rightarrow> event list \<Rightarrow> request \<Rightarrow> event list" where
  "exchange env tr req =
     ClientGetCompletion (config_get env ''OPENAI_API_HOST'') (config_get env ''OPENAI_API_KEY'') req
       # map Secho (client_get_completion env tr req) @ [SechoNewline]"

fun is_completion_call :: "event \<Rightarrow> bool" where
  "is_completion_call (ClientGetCompletion _ _ _) = True"
| "is_completion_call _ = False"

text \<open>
  How many completions a trace has requested, and the commands it has passed to
  \<^verbatim>\<open>os.system\<close>, in order.
\<close>

definition completion_calls :: "event list \<Rightarrow> nat" where
  "completion_calls tr = length (filter is_completion_call tr)"

definition system_calls :: "event list \<Rightarrow> string list" where
  "system_calls tr = concat (map (\<lambda>e. case e of System c \<Rightarrow> [c] | _ \<Rightarrow> []) tr)"

text \<open>The events of lines 64 to 67, which show the stored history of a resumed session.\<close>

definition chat_history_events :: "string \<Rightarrow> bool \<Rightarrow> bool \<Rightarrow> event list" where
  "chat_history_events chat shell code =
     [PrintRule (Some ''Chat History''), EchoChatMessages chat shell code, PrintRule None, Echo []]"

text \<open>
  The events of one call of \<^verbatim>\<open>typer.prompt\<close> that reads the given lines: the text is
  shown before each of them.
\<close>

definition asked :: "string \<Rightarrow> bool \<Rightarrow> string list \<Rightarrow> event list" where
  "asked text err lines = concat (map (\<lambda>l. [Prompt text err, Input l]) lines)"

text \<open>
  The errors that the module raises itself, each after a test of its own:
  \<^verbatim>\<open>BadParameter\<close> on lines 70 to 77 and \<^verbatim>\<open>MissingParameter\<close> on lines 140 and 141.
  \<^verbatim>\<open>IndexError\<close> comes from the indexing on line 68 and \<^verbatim>\<open>Abort\<close> from the terminal:
  no statement of the module tests for either.
\<close>

fun raised_by_check :: "error \<Rightarrow> bool" where
  "raised_by_check (BadParameter _) = True"
| "raised_by_check (MissingParameter _ _) = True"
| "raised_by_check IndexError = False"
| "raised_by_check Abort = False"

text \<open>The text the choice prompt of a chat turn shows (line 103).\<close>

definition prompt_text :: "bool \<Rightarrow> string" where
  "prompt_text shell =
     (if shell then ''Revise or [bold magenta][E][/bold magenta]xecute'' else ''Prompt'')"

subsection \<open>A concrete environment\<close>

text \<open>
  Four stored sessions: \<open>sh\<close> was started as a shell assistant, \<open>py\<close> as a code
  assistant, \<open>talk\<close> as a plain chat, and \<open>bad\<close> exists without messages. The prompt
  builders append the sentinel of the mode; the client always answers with the same two
  fragments.
\<close>

definition framed :: "string \<Rightarrow> bool \<Rightarrow> bool \<Rightarrow> string" where
  "framed p shell code =
     p @ (if shell then shell_sentinel else if code then code_sentinel else [])"

definition demo_env :: env where
  "demo_env =
     \<lparr>config_get = (\<lambda>k. if k = ''OPENAI_API_HOST'' then ''https://api.openai.com'' else ''sk-0''),
      chat_exists = (\<lambda>c. c = ''sh'' \<or> c = ''py'' \<or> c = ''talk'' \<or> c = ''bad''),
      get_messages =
        (\<lambda>c. if c = ''sh'' then [framed ''delete the folder'' True False, ''rm -rf /tmp/foo'']
             else if c = ''py'' then [framed ''hello world'' False True, ''print(1)'']
             else if c = ''talk'' then [''hi'', ''hello'']
             else []),
      make_prompt_initial = (\<lambda>p. framed (case p of None \<Rightarrow> [] | Some s \<Rightarrow> s)),
      make_prompt_chat_mode = framed,
      client_get_completion = (\<lambda>tr req. [''rm -rf'', '' /tmp/foo'']),
      get_edited_prompt = []\<rparr>"

definition terminal :: "string list \<Rightarrow> bool list \<Rightarrow> world" where
  "terminal lines replies = \<lparr>stdin = lines, answers = replies, trace = []\<rparr>"

section \<open>Properties\<close>

subsection \<open>Helper facts\<close>

lemma endswith_iff: "endswith s suf \<longleftrightarrow> (\<exists>pre. s = pre @ suf)"
proof
  assume "endswith s suf"
  then have "s = take (length s - length suf) s @ suf"
    by (metis append_take_drop_id endswith_def)
  then show "\<exists>pre. s = pre @ suf" ..
next
  assume "\<exists>pre. s = pre @ suf"
  then show "endswith s suf" by (auto simp: endswith_def)
qed

lemma sentinels_exclusive: "\<not> (endswith s shell_sentinel \<and> endswith s code_sentinel)"
proof
  assume a: "endswith s shell_sentinel \<and> endswith s code_sentinel"
  from a obtain p where p: "s = p @ shell_sentinel" unfolding endswith_iff by blast
  from a obtain q where q: "s = q @ code_sentinel" unfolding endswith_iff by blast
  have "last (butlast (butlast s)) = CHR ''n''"
    by (simp add: p shell_sentinel_def butlast_append)
  moreover have "last (butlast (butlast s)) = CHR ''d''"
    by (simp add: q code_sentinel_def butlast_append)
  ultimately show False by simp
qed

lemma trace_emit [simp]: "trace (emit e w) = trace w @ [e]"
  and stdin_emit [simp]: "stdin (emit e w) = stdin w"
  and answers_emit [simp]: "answers (emit e w) = answers w"
  by (simp_all add: emit_def)

lemma stream_words_eq:
  "stream_words frags full w = (full @ concat frags, w\<lparr>trace := trace w @ map Secho frags\<rparr>)"
  by (induction frags arbitrary: full w) (simp_all add: emit_def)

lemma get_completion_eq:
  "get_completion env [\<lparr>role = ''user'', content = p\<rparr>] temp top_p cach chat w =
     (client_get_completion env (trace w) (user_request temp top_p cach chat p),
      emit (ClientGetCompletion (config_get env ''OPENAI_API_HOST'')
              (config_get env ''OPENAI_API_KEY'') (user_request temp top_p cach chat p)) w)"
  by (simp add: get_completion_def user_request_def Let_def)

lemma asked_Nil [simp]: "asked msg err [] = []"
  and asked_Cons [simp]: "asked msg err (l # ls) = Prompt msg err # Input l # asked msg err ls"
  and asked_append [simp]: "asked msg err (xs @ ys) = asked msg err xs @ asked msg err ys"
  by (simp_all add: asked_def)

lemma lines_cases:
  obtains (blank) "set xs \<subseteq> {[]}"
  | (line) blanks line rest where "xs = blanks @ line # rest" "set blanks \<subseteq> {[]}" "line \<noteq> []"
proof (cases "dropWhile (\<lambda>l. l = []) xs")
  case Nil
  then have "set xs \<subseteq> {[]}" by auto
  then show ?thesis by (rule blank)
next
  case (Cons line rest)
  have "xs = takeWhile (\<lambda>l. l = []) xs @ line # rest"
    using Cons takeWhile_dropWhile_id [of "\<lambda>l. l = []" xs] by simp
  moreover have "set (takeWhile (\<lambda>l. l = []) xs) \<subseteq> {[]}"
    by (auto dest: set_takeWhileD)
  moreover have "line \<noteq> []"
    using Cons hd_dropWhile [of "\<lambda>l. l = []" xs] by auto
  ultimately show ?thesis by (rule line)
qed

lemma typer_prompt_blank:
  assumes "set blanks \<subseteq> {[]}" and "stdin w = blanks"
  shows "typer_prompt msg err w =
     (Inl Abort, w\<lparr>stdin := [], trace := trace w @ asked msg err blanks @ [Prompt msg err]\<rparr>)"
  using assms
proof (induction blanks arbitrary: w)
  case Nil
  then show ?case
    by (cases w) (simp add: typer_prompt.simps [of msg err] emit_def)
next
  case (Cons b blanks)
  then have b: "b = []" and rest: "set blanks \<subseteq> {[]}" by simp_all
  let ?w = "emit (Input b) (emit (Prompt msg err) (w\<lparr>stdin := blanks\<rparr>))"
  have "typer_prompt msg err w = typer_prompt msg err ?w"
    using Cons.prems(2) b by (simp add: typer_prompt.simps [of msg err w] Let_def)
  also have "\<dots> = (Inl Abort,
      ?w\<lparr>stdin := [], trace := trace ?w @ asked msg err blanks @ [Prompt msg err]\<rparr>)"
    by (rule Cons.IH [OF rest]) simp
  finally show ?case by (simp add: emit_def)
qed

lemma typer_prompt_line:
  assumes "set blanks \<subseteq> {[]}" and "line \<noteq> []" and "stdin w = blanks @ line # rest"
  shows "typer_prompt msg err w =
     (Inr line, w\<lparr>stdin := rest, trace := trace w @ asked msg err (blanks @ [line])\<rparr>)"
  using assms
proof (induction blanks arbitrary: w)
  case Nil
  then show ?case
    by (simp add: typer_prompt.simps [of msg err w] emit_def Let_def)
next
  case (Cons b blanks)
  then have b: "b = []" and rest: "set blanks \<subseteq> {[]}" by simp_all
  let ?w = "emit (Input b) (emit (Prompt msg err) (w\<lparr>stdin := blanks @ line # rest\<rparr>))"
  have "typer_prompt msg err w = typer_prompt msg err ?w"
    using Cons.prems(3) b by (simp add: typer_prompt.simps [of msg err w] Let_def)
  also have "\<dots> = (Inr line, ?w\<lparr>stdin := rest, trace := trace ?w @ asked msg err (blanks @ [line])\<rparr>)"
    by (rule Cons.IH [OF rest Cons.prems(2)]) simp
  finally show ?case by (simp add: emit_def)
qed

lemma chat_turn_eof:
  assumes "set (stdin w) \<subseteq> {[]}"
  shows "chat_turn env temp top_p chat shell code cache prompt w =
     (Inl Abort,
      w\<lparr>stdin := [],
        trace := trace w
          @ exchange env (trace w) (user_request temp top_p cache (Some chat) prompt)
          @ [RichPrint (prompt_text shell)]
          @ asked [] False (stdin w) @ [Prompt [] False]\<rparr>)"
proof -
  let ?v = "w\<lparr>trace := trace w
      @ exchange env (trace w) (user_request temp top_p cache (Some chat) prompt)
      @ [RichPrint (prompt_text shell)]\<rparr>"
  have "typer_prompt [] False ?v =
      (Inl Abort, ?v\<lparr>stdin := [], trace := trace ?v @ asked [] False (stdin w) @ [Prompt [] False]\<rparr>)"
    by (rule typer_prompt_blank [OF assms]) simp
  then show ?thesis
    by (simp add: chat_turn_def get_completion_eq stream_words_eq emit_def
          exchange_def prompt_text_def Let_def)
qed

lemma chat_turn_revise:
  assumes "stdin w = blanks @ line # rest" and "set blanks \<subseteq> {[]}" and "line \<noteq> []"
    and "\<not> (shell \<and> (line = ''execute'' \<or> line = ''e''))"
  shows "chat_turn env temp top_p chat shell code cache prompt w =
     (Inr (make_prompt_chat_mode env line shell code),
      w\<lparr>stdin := rest,
        trace := trace w
          @ exchange env (trace w) (user_request temp top_p cache (Some chat) prompt)
          @ [RichPrint (prompt_text shell)]
          @ asked [] False (blanks @ [line])\<rparr>)"
proof -
  let ?v = "w\<lparr>trace := trace w
      @ exchange env (trace w) (user_request temp top_p cache (Some chat) prompt)
      @ [RichPrint (prompt_text shell)]\<rparr>"
  have "typer_prompt [] False ?v =
      (Inr line, ?v\<lparr>stdin := rest, trace := trace ?v @ asked [] False (blanks @ [line])\<rparr>)"
    by (rule typer_prompt_line [OF assms(2,3)]) (simp add: assms(1))
  then show ?thesis using assms(4)
    by (simp add: chat_turn_def get_completion_eq stream_words_eq emit_def
          exchange_def prompt_text_def Let_def)
qed

lemma chat_turn_execute_eof:
  assumes "stdin w = blanks @ line # rest" and "set blanks \<subseteq> {[]}"
    and "shell" and "line = ''execute'' \<or> line = ''e''" and "set rest \<subseteq> {[]}"
  shows "chat_turn env temp top_p chat shell code cache prompt w =
     (Inl Abort,
      w\<lparr>stdin := [],
        trace := trace w
          @ exchange env (trace w) (user_request temp top_p cache (Some chat) prompt)
          @ [RichPrint (prompt_text shell)]
          @ asked [] False (blanks @ [line])
          @ [Echo [],
             System (concat (client_get_completion env (trace w)
                               (user_request temp top_p cache (Some chat) prompt))),
             Echo [], PrintRule None]
          @ asked ''Enter your prompt'' True rest @ [Prompt ''Enter your prompt'' True]\<rparr>)"
proof -
  let ?v = "w\<lparr>trace := trace w
      @ exchange env (trace w) (user_request temp top_p cache (Some chat) prompt)
      @ [RichPrint (prompt_text shell)]\<rparr>"
  let ?u = "w\<lparr>stdin := rest, trace := trace w
      @ exchange env (trace w) (user_request temp top_p cache (Some chat) prompt)
      @ [RichPrint (prompt_text shell)]
      @ asked [] False (blanks @ [line])
      @ [Echo [],
         System (concat (client_get_completion env (trace w)
                           (user_request temp top_p cache (Some chat) prompt))),
         Echo [], PrintRule None]\<rparr>"
  from assms(4) have ne: "line \<noteq> []" by auto
  have choice: "typer_prompt [] False ?v =
      (Inr line, ?v\<lparr>stdin := rest, trace := trace ?v @ asked [] False (blanks @ [line])\<rparr>)"
    by (rule typer_prompt_line [OF assms(2) ne]) (simp add: assms(1))
  have fresh: "typer_prompt ''Enter your prompt'' True ?u =
      (Inl Abort, ?u\<lparr>stdin := [], trace := trace ?u @ asked ''Enter your prompt'' True rest
                          @ [Prompt ''Enter your prompt'' True]\<rparr>)"
    by (rule typer_prompt_blank [OF assms(5)]) simp
  from choice fresh assms(3,4) show ?thesis
    by (simp add: chat_turn_def get_completion_eq stream_words_eq emit_def
          exchange_def prompt_text_def Let_def)
qed

lemma chat_turn_execute:
  assumes "stdin w = blanks @ line # blanks' @ fresh # rest" and "set blanks \<subseteq> {[]}"
    and "shell" and "line = ''execute'' \<or> line = ''e''"
    and "set blanks' \<subseteq> {[]}" and "fresh \<noteq> []"
  shows "chat_turn env temp top_p chat shell code cache prompt w =
     (Inr (make_prompt_chat_mode env fresh shell code),
      w\<lparr>stdin := rest,
        trace := trace w
          @ exchange env (trace w) (user_request temp top_p cache (Some chat) prompt)
          @ [RichPrint (prompt_text shell)]
          @ asked [] False (blanks @ [line])
          @ [Echo [],
             System (concat (client_get_completion env (trace w)
                               (user_request temp top_p cache (Some chat) prompt))),
             Echo [], PrintRule None]
          @ asked ''Enter your prompt'' True (blanks' @ [fresh])\<rparr>)"
proof -
  let ?v = "w\<lparr>trace := trace w
      @ exchange env (trace w) (user_request temp top_p cache (Some chat) prompt)
      @ [RichPrint (prompt_text shell)]\<rparr>"
  let ?u = "w\<lparr>stdin := blanks' @ fresh # rest, trace := trace w
      @ exchange env (trace w) (user_request temp top_p cache (Some chat) prompt)
      @ [RichPrint (prompt_text shell)]
      @ asked [] False (blanks @ [line])
      @ [Echo [],
         System (concat (client_get_completion env (trace w)
                           (user_request temp top_p cache (Some chat) prompt))),
         Echo [], PrintRule None]\<rparr>"
  from assms(4) have ne: "line \<noteq> []" by auto
  have choice: "typer_prompt [] False ?v =
      (Inr line, ?v\<lparr>stdin := blanks' @ fresh # rest,
                   trace := trace ?v @ asked [] False (blanks @ [line])\<rparr>)"
    by (rule typer_prompt_line [OF assms(2) ne]) (simp add: assms(1))
  have fresh: "typer_prompt ''Enter your prompt'' True ?u =
      (Inr fresh, ?u\<lparr>stdin := rest,
                    trace := trace ?u @ asked ''Enter your prompt'' True (blanks' @ [fresh])\<rparr>)"
    by (rule typer_prompt_line [OF assms(5,6)]) simp
  from choice fresh assms(3,4) show ?thesis
    by (simp add: chat_turn_def get_completion_eq stream_words_eq emit_def
          exchange_def prompt_text_def Let_def)
qed

lemma completion_calls_append [simp]:
  "completion_calls (xs @ ys) = completion_calls xs + completion_calls ys"
  by (simp add: completion_calls_def)

lemma completion_calls_Nil [simp]: "completion_calls [] = 0"
  by (simp add: completion_calls_def)

lemma completion_calls_Cons [simp]:
  "completion_calls (e # xs) = (if is_completion_call e then 1 else 0) + completion_calls xs"
  by (simp add: completion_calls_def)

lemma completion_calls_Secho [simp]: "completion_calls (map Secho frags) = 0"
  by (induction frags) simp_all

lemma completion_calls_exchange [simp]: "completion_calls (exchange env tr req) = 1"
  by (simp add: exchange_def)

lemma system_calls_append [simp]: "system_calls (xs @ ys) = system_calls xs @ system_calls ys"
  by (simp add: system_calls_def)

lemma system_calls_Nil [simp]: "system_calls [] = []"
  by (simp add: system_calls_def)

lemma system_calls_Cons [simp]:
  "system_calls (e # xs) = (case e of System c \<Rightarrow> [c] | _ \<Rightarrow> []) @ system_calls xs"
  by (simp add: system_calls_def)

lemma system_calls_Secho [simp]: "system_calls (map Secho frags) = []"
  by (induction frags) simp_all

lemma system_calls_exchange [simp]: "system_calls (exchange env tr req) = []"
  by (simp add: exchange_def)


lemma completion_calls_asked [simp]: "completion_calls (asked msg err ls) = 0"
  by (induction ls) simp_all

lemma system_calls_asked [simp]: "system_calls (asked msg err ls) = []"
  by (induction ls) simp_all

lemma typed_blank: "set xs \<subseteq> {[]} \<Longrightarrow> filter (\<lambda>l. l \<noteq> []) xs = []"
  by (induction xs) auto

text \<open>
  The four ways a pass can go, by the lines that are left: none but empty ones; a line
  that is not a choice to execute; a choice to execute with only empty lines after it; a
  choice to execute and a fresh prompt.
\<close>

lemma chat_turn_cases:
  obtains
    (eof) "set (stdin w) \<subseteq> {[]}"
  | (revise) blanks line rest where "stdin w = blanks @ line # rest" "set blanks \<subseteq> {[]}"
      "line \<noteq> []" "\<not> (shell \<and> (line = ''execute'' \<or> line = ''e''))"
  | (execute_eof) blanks line rest where "stdin w = blanks @ line # rest" "set blanks \<subseteq> {[]}"
      "shell" "line = ''execute'' \<or> line = ''e''" "set rest \<subseteq> {[]}"
  | (execute) blanks line blanks' fresh rest where
      "stdin w = blanks @ line # blanks' @ fresh # rest" "set blanks \<subseteq> {[]}"
      "shell" "line = ''execute'' \<or> line = ''e''" "set blanks' \<subseteq> {[]}" "fresh \<noteq> []"
proof (cases "stdin w" rule: lines_cases)
  case blank
  then show ?thesis by (rule eof)
next
  case (line blanks l rest)
  show ?thesis
  proof (cases "shell \<and> (l = ''execute'' \<or> l = ''e'')")
    case False
    show ?thesis
      by (rule revise [of blanks l rest]) (use line False in simp_all)
  next
    case True
    show ?thesis
    proof (cases rest rule: lines_cases)
      case blank
      show ?thesis
        by (rule execute_eof [of blanks l rest]) (use line True blank in simp_all)
    next
      case (line blanks' fresh rest')
      show ?thesis
        by (rule execute [of blanks l blanks' fresh rest'])
           (use \<open>stdin w = blanks @ l # rest\<close> \<open>set blanks \<subseteq> {[]}\<close> True line in simp_all)
    qed
  qed
qed

lemma chat_turn_progress:
  assumes "chat_turn env temp top_p chat shell code cache prompt w = (r, w')"
  shows "completion_calls (trace w') = completion_calls (trace w) + 1 \<and>
         (case r of
            Inl e \<Rightarrow> e = Abort \<and> stdin w' = []
                     \<and> length (filter (\<lambda>l. l \<noteq> []) (stdin w)) \<le> 1
                     \<and> (\<not> shell \<longrightarrow> filter (\<lambda>l. l \<noteq> []) (stdin w) = [])
          | Inr p \<Rightarrow> length (stdin w') < length (stdin w)
                     \<and> length (filter (\<lambda>l. l \<noteq> []) (stdin w))
                         \<le> length (filter (\<lambda>l. l \<noteq> []) (stdin w')) + 2
                     \<and> length (filter (\<lambda>l. l \<noteq> []) (stdin w')) < length (filter (\<lambda>l. l \<noteq> []) (stdin w))
                     \<and> (\<not> shell \<longrightarrow> length (filter (\<lambda>l. l \<noteq> []) (stdin w))
                                      = length (filter (\<lambda>l. l \<noteq> []) (stdin w')) + 1))"
proof (cases rule: chat_turn_cases [where w = w and shell = shell])
  case eof
  from chat_turn_eof [OF eof, of env temp top_p chat shell code cache prompt] assms
    typed_blank [OF eof]
  show ?thesis by auto
next
  case (revise blanks line rest)
  from chat_turn_revise [OF revise, of env temp top_p chat code cache prompt] assms
    revise typed_blank [OF revise(2)]
  show ?thesis by auto
next
  case (execute_eof blanks line rest)
  from chat_turn_execute_eof [OF execute_eof, of env temp top_p chat code cache prompt] assms
    execute_eof typed_blank [OF execute_eof(2)] typed_blank [OF execute_eof(5)]
  show ?thesis by auto
next
  case (execute blanks line blanks' fresh rest)
  from chat_turn_execute [OF execute, of env temp top_p chat code cache prompt] assms
    execute typed_blank [OF execute(2)] typed_blank [OF execute(5)]
  show ?thesis by auto
qed

lemma chat_turn_executes:
  "\<exists>more. trace (snd (chat_turn env temp top_p chat shell code cache prompt w)) =
       trace w @ exchange env (trace w) (user_request temp top_p cache (Some chat) prompt) @ more
     \<and> set (system_calls more)
         \<subseteq> {concat (client_get_completion env (trace w)
                       (user_request temp top_p cache (Some chat) prompt))}"
proof (cases rule: chat_turn_cases [where w = w and shell = shell])
  case eof
  from chat_turn_eof [OF eof, of env temp top_p chat shell code cache prompt]
  show ?thesis by simp
next
  case (revise blanks line rest)
  from chat_turn_revise [OF revise, of env temp top_p chat code cache prompt]
  show ?thesis by simp
next
  case (execute_eof blanks line rest)
  from chat_turn_execute_eof [OF execute_eof, of env temp top_p chat code cache prompt]
  show ?thesis by simp
next
  case (execute blanks line blanks' fresh rest)
  from chat_turn_execute [OF execute, of env temp top_p chat code cache prompt]
  show ?thesis by simp
qed

lemma chat_turn_begins:
  "\<exists>more. trace (snd (chat_turn env temp top_p chat shell code cache prompt w)) =
     trace w @ exchange env (trace w) (user_request temp top_p cache (Some chat) prompt) @ more"
  using chat_turn_executes [of env temp top_p chat shell code cache prompt w] by blast

lemma chat_loop_aborts:
  "\<exists>w'. chat_loop env temp top_p chat shell code cache prompt w = (Inl Abort, w') \<and> stdin w' = []
     \<and> length (filter (\<lambda>l. l \<noteq> []) (stdin w)) + 2 * completion_calls (trace w)
         < 2 * completion_calls (trace w')
     \<and> (\<not> shell \<longrightarrow> completion_calls (trace w')
           = completion_calls (trace w) + length (filter (\<lambda>l. l \<noteq> []) (stdin w)) + 1)"
proof (induction env temp top_p chat shell code cache prompt w rule: chat_loop.induct)
  case (1 env temp top_p chat shell code cache prompt w)
  obtain r w1 where turn: "chat_turn env temp top_p chat shell code cache prompt w = (r, w1)"
    by (cases "chat_turn env temp top_p chat shell code cache prompt w")
  note progress = chat_turn_progress [OF turn]
  show ?case
  proof (cases r)
    case (Inl e)
    with turn progress show ?thesis by (auto simp: chat_loop.simps [of _ _ _ _ _ _ _ _ w])
  next
    case (Inr p)
    from "1.IH" [OF turn [symmetric] Inr]
    obtain w' where w': "chat_loop env temp top_p chat shell code cache p w1 = (Inl Abort, w')"
        "stdin w' = []"
        "length (filter (\<lambda>l. l \<noteq> []) (stdin w1)) + 2 * completion_calls (trace w1)
           < 2 * completion_calls (trace w')"
        "\<not> shell \<longrightarrow> completion_calls (trace w')
           = completion_calls (trace w1) + length (filter (\<lambda>l. l \<noteq> []) (stdin w1)) + 1"
      by blast
    have "chat_loop env temp top_p chat shell code cache prompt w = (Inl Abort, w')"
      using turn Inr w'(1) by (simp add: chat_loop.simps [of _ _ _ _ _ _ _ prompt w])
    moreover from progress Inr w'(3)
    have "length (filter (\<lambda>l. l \<noteq> []) (stdin w)) + 2 * completion_calls (trace w)
        < 2 * completion_calls (trace w')"
      by simp
    moreover from progress Inr w'(4)
    have "\<not> shell \<longrightarrow> completion_calls (trace w')
        = completion_calls (trace w) + length (filter (\<lambda>l. l \<noteq> []) (stdin w)) + 1"
      by simp
    ultimately show ?thesis using w'(2) by blast
  qed
qed

lemma resume_chat_empty:
  assumes "get_messages env chat = []"
  shows "resume_chat env chat shell code w =
     (Inl IndexError, w\<lparr>trace := trace w @ chat_history_events chat shell code\<rparr>)"
  using assms by (simp add: resume_chat_def chat_history_events_def emit_def)

lemma resume_chat_first:
  assumes "get_messages env chat = first # rest"
  shows "resume_chat env chat shell code w =
     (if endswith first shell_sentinel \<and> code then
        Inl (BadParameter (''Chat id:'' @ chat @
               '' was initiated as shell assistant, can be used with --shell only''))
      else if endswith first code_sentinel \<and> shell then
        Inl (BadParameter (''Chat id:'' @ chat @
               '' was initiated as code assistant, can be used with --code only''))
      else Inr (endswith first shell_sentinel, endswith first code_sentinel),
      w\<lparr>trace := trace w @ chat_history_events chat shell code\<rparr>)"
  using assms by (simp add: resume_chat_def chat_history_events_def emit_def Let_def)

lemma completion_calls_history [simp]: "completion_calls (chat_history_events chat shell code) = 0"
  by (simp add: chat_history_events_def)

lemma chat_session_raises:
  "\<exists>e w'. chat_session env exists prompt temp top_p chat shell code cache w = (Inl e, w')"
proof -
  obtain r w1 where first:
    "(case prompt of
        None \<Rightarrow> typer_prompt ''Enter your prompt'' True w
      | Some p \<Rightarrow> if p = [] then typer_prompt ''Enter your prompt'' True w
                  else (Inr p, emit (Echo p) w)) = (r, w1)"
    by (meson surj_pair)
  show ?thesis
  proof (cases r)
    case (Inl e)
    with first show ?thesis by (simp add: chat_session_def)
  next
    case (Inr p)
    from chat_loop_aborts
    obtain w' where "chat_loop env temp top_p chat shell code cache
        (if exists then make_prompt_chat_mode env p shell code
         else make_prompt_initial env (Some p) shell code) w1 = (Inl Abort, w')"
      by blast
    with first Inr show ?thesis by (simp add: chat_session_def)
  qed
qed

lemma chat_mode_raises:
  "\<exists>e w'. chat_mode env prompt temp top_p chat shell code cache w = (Inl e, w')"
proof -
  obtain r w1 where res:
    "(if chat_exists env chat then resume_chat env chat shell code w else (Inr (shell, code), w))
       = (r, w1)"
    by (meson surj_pair)
  show ?thesis
  proof (cases r)
    case (Inl e)
    with res show ?thesis by (simp add: chat_mode_def)
  next
    case (Inr flags)
    obtain sh cd where flags: "flags = (sh, cd)" by (cases flags)
    from chat_session_raises [of env "chat_exists env chat" prompt temp top_p chat sh cd cache w1]
    obtain e w' where
      "chat_session env (chat_exists env chat) prompt temp top_p chat sh cd cache w1 = (Inl e, w')"
      by blast
    with res Inr flags show ?thesis by (simp add: chat_mode_def)
  qed
qed

lemma main_chat:
  assumes "chat \<noteq> []"
  shows "main env prompt temp top_p (Some chat) False shell code editor cache w =
     chat_mode env (if editor then Some (get_edited_prompt env) else prompt) temp top_p chat
       shell code cache (if editor then emit EditedPrompt w else w)"
proof -
  show ?thesis
  proof (cases editor)
    case True
    from chat_mode_raises
    obtain e w' where "chat_mode env (Some (get_edited_prompt env)) temp top_p chat
        shell code cache (emit EditedPrompt w) = (Inl e, w')"
      by blast
    with assms True show ?thesis by (simp add: main_def)
  next
    case False
    from chat_mode_raises
    obtain e w' where "chat_mode env prompt temp top_p chat shell code cache w = (Inl e, w')"
      by blast
    with assms False show ?thesis by (simp add: main_def)
  qed
qed


lemma entry_point_status:
  "fst (entry_point env prompt temp top_p chat list_chat shell code editor cache w) =
     (if in_range temp top_p
      then exit_status (fst (main env prompt temp top_p chat list_chat shell code editor cache w))
      else 2)"
  by (simp add: entry_point_def split: prod.splits)

lemma main_single_shot:
  assumes "chat = None \<or> chat = Some []" and "\<not> list_chat" and "\<not> (py_not prompt \<and> \<not> editor)"
    and "w1 = (if editor then emit EditedPrompt w else w)"
    and "req = user_request temp top_p cache chat
                 (make_prompt_initial env
                    (if editor then Some (get_edited_prompt env) else prompt) shell code)"
    and "frags = client_get_completion env (trace w1) req"
  shows "main env prompt temp top_p chat list_chat shell code editor cache w =
     (if \<not> code \<and> shell then
        (case answers w of
           [] \<Rightarrow> (Inl Abort,
                  w1\<lparr>trace := trace w1 @ exchange env (trace w1) req
                                @ [Confirm ''Execute shell command?'']\<rparr>)
         | b # bs \<Rightarrow>
             (Inr (),
              w1\<lparr>answers := bs,
                 trace := trace w1 @ exchange env (trace w1) req
                            @ [Confirm ''Execute shell command?'', Answer b]
                            @ (if b then [System (concat frags)] else [])\<rparr>))
      else (Inr (), w1\<lparr>trace := trace w1 @ exchange env (trace w1) req\<rparr>))"
  using assms
  by (auto simp: main_def get_completion_eq stream_words_eq typer_confirm_def emit_def
        exchange_def py_not_def Let_def split: list.splits option.splits)


subsection \<open>Mode conflicts\<close>

text \<open>
  Claim C1. For an existing session whose first stored message ends with the code
  sentinel, \<open>chat_mode\<close> called with \<open>shell = True\<close> raises \<open>BadParameter\<close> with a
  message that contains the chat id; for one whose first stored message ends with the
  command sentinel, \<open>chat_mode\<close> called with \<open>code = True\<close> does. In both cases the
  only events are those that show the stored history: no completion is requested and no
  input is read.
\<close>

theorem mode_conflict:
  assumes "chat_exists env chat" and "get_messages env chat = first # rest"
  shows "(endswith first code_sentinel \<longrightarrow>
            chat_mode env prompt temp top_p chat True code cache w =
              (Inl (BadParameter (''Chat id:'' @ chat @
                      '' was initiated as code assistant, can be used with --code only'')),
               w\<lparr>trace := trace w @ chat_history_events chat True code\<rparr>))
       \<and> (endswith first shell_sentinel \<longrightarrow>
            chat_mode env prompt temp top_p chat shell True cache w =
              (Inl (BadParameter (''Chat id:'' @ chat @
                      '' was initiated as shell assistant, can be used with --shell only'')),
               w\<lparr>trace := trace w @ chat_history_events chat shell True\<rparr>))
       \<and> completion_calls (trace w @ chat_history_events chat shell code)
           = completion_calls (trace w)"
proof (intro conjI impI)
  assume c: "endswith first code_sentinel"
  with sentinels_exclusive [of first] have "\<not> endswith first shell_sentinel" by blast
  with c assms show "chat_mode env prompt temp top_p chat True code cache w =
      (Inl (BadParameter (''Chat id:'' @ chat @
              '' was initiated as code assistant, can be used with --code only'')),
       w\<lparr>trace := trace w @ chat_history_events chat True code\<rparr>)"
    by (simp add: chat_mode_def resume_chat_first)
next
  assume "endswith first shell_sentinel"
  with assms show "chat_mode env prompt temp top_p chat shell True cache w =
      (Inl (BadParameter (''Chat id:'' @ chat @
              '' was initiated as shell assistant, can be used with --shell only'')),
       w\<lparr>trace := trace w @ chat_history_events chat shell True\<rparr>)"
    by (simp add: chat_mode_def resume_chat_first)
next
  show "completion_calls (trace w @ chat_history_events chat shell code)
          = completion_calls (trace w)"
    by simp
qed

theorem mode_conflict_witness:
  "chat_exists demo_env ''py'' \<and> endswith (hd (get_messages demo_env ''py'')) code_sentinel
   \<and> chat_mode demo_env (Some ''list files'') 1 1 ''py'' True False True (terminal [] []) =
       (Inl (BadParameter ''Chat id:py was initiated as code assistant, can be used with --code only''),
        terminal [] [] \<lparr>trace := chat_history_events ''py'' True False\<rparr>)
   \<and> chat_exists demo_env ''sh'' \<and> endswith (hd (get_messages demo_env ''sh'')) shell_sentinel
   \<and> chat_mode demo_env None 1 1 ''sh'' False True True (terminal [''x''] []) =
       (Inl (BadParameter ''Chat id:sh was initiated as shell assistant, can be used with --shell only''),
        terminal [''x''] [] \<lparr>trace := chat_history_events ''sh'' False True\<rparr>)"
proof -
  have py: "chat_exists demo_env ''py''"
    "get_messages demo_env ''py'' = [framed ''hello world'' False True, ''print(1)'']"
    by (simp_all add: demo_env_def)
  have sh: "chat_exists demo_env ''sh''"
    "get_messages demo_env ''sh'' = [framed ''delete the folder'' True False, ''rm -rf /tmp/foo'']"
    by (simp_all add: demo_env_def)
  have ends: "endswith (framed ''hello world'' False True) code_sentinel"
    "endswith (framed ''delete the folder'' True False) shell_sentinel"
    by (simp_all add: framed_def endswith_def code_sentinel_def shell_sentinel_def)
  from mode_conflict [OF py, of "Some ''list files''" 1 1 False True "terminal [] []"]
       mode_conflict [OF sh, of None 1 1 False True "terminal [''x''] []" False]
       py sh ends
  show ?thesis by (simp add: terminal_def)
qed


text \<open>
  Claim C2. For an existing session with a first stored message, the pair of flags that
  line 79 assigns is determined by that message alone: \<open>shell\<close> is whether it ends with
  the command sentinel, \<open>code\<close> whether it ends with the code sentinel (never both), and
  both are false otherwise. When no conflict is raised, the rest of \<open>chat_mode\<close> runs
  with that pair in place of the caller's flags.
\<close>

theorem stored_mode_adopted:
  assumes "chat_exists env chat" and "get_messages env chat = first # rest"
  shows "(\<forall>sh cd w'. resume_chat env chat shell code w = (Inr (sh, cd), w')
            \<longrightarrow> sh = endswith first shell_sentinel \<and> cd = endswith first code_sentinel)
       \<and> \<not> (endswith first shell_sentinel \<and> endswith first code_sentinel)
       \<and> (\<not> (endswith first shell_sentinel \<and> code) \<and> \<not> (endswith first code_sentinel \<and> shell)
            \<longrightarrow> chat_mode env prompt temp top_p chat shell code cache w =
                  chat_session env True prompt temp top_p chat
                    (endswith first shell_sentinel) (endswith first code_sentinel) cache
                    (w\<lparr>trace := trace w @ chat_history_events chat shell code\<rparr>))"
proof (intro conjI allI impI)
  fix sh cd w'
  assume "resume_chat env chat shell code w = (Inr (sh, cd), w')"
  with assms(2) show "sh = endswith first shell_sentinel" and "cd = endswith first code_sentinel"
    by (simp_all add: resume_chat_first split: if_splits)
next
  show "\<not> (endswith first shell_sentinel \<and> endswith first code_sentinel)"
    by (rule sentinels_exclusive)
next
  assume "\<not> (endswith first shell_sentinel \<and> code) \<and> \<not> (endswith first code_sentinel \<and> shell)"
  with assms show "chat_mode env prompt temp top_p chat shell code cache w =
      chat_session env True prompt temp top_p chat
        (endswith first shell_sentinel) (endswith first code_sentinel) cache
        (w\<lparr>trace := trace w @ chat_history_events chat shell code\<rparr>)"
    by (auto simp: chat_mode_def resume_chat_first)
qed

text \<open>
  The caller resumes the shell session \<open>sh\<close> without any flag, and the plain session
  \<open>talk\<close> with \<open>--shell\<close>: the first runs as a shell chat, the second as a plain one.
\<close>

theorem stored_mode_adopted_witness:
  "chat_exists demo_env ''sh'' \<and> chat_exists demo_env ''talk''
   \<and> resume_chat demo_env ''sh'' False False (terminal [] []) =
       (Inr (True, False), terminal [] [] \<lparr>trace := chat_history_events ''sh'' False False\<rparr>)
   \<and> chat_mode demo_env None 1 1 ''sh'' False False True (terminal [] []) =
       chat_session demo_env True None 1 1 ''sh'' True False True
         (terminal [] [] \<lparr>trace := chat_history_events ''sh'' False False\<rparr>)
   \<and> chat_mode demo_env None 1 1 ''talk'' True False True (terminal [] []) =
       chat_session demo_env True None 1 1 ''talk'' False False True
         (terminal [] [] \<lparr>trace := chat_history_events ''talk'' True False\<rparr>)"
proof -
  have sh: "chat_exists demo_env ''sh''"
    "get_messages demo_env ''sh'' = [framed ''delete the folder'' True False, ''rm -rf /tmp/foo'']"
    by (simp_all add: demo_env_def)
  have talk: "chat_exists demo_env ''talk''" "get_messages demo_env ''talk'' = [''hi'', ''hello'']"
    by (simp_all add: demo_env_def)
  have ends: "endswith (framed ''delete the folder'' True False) shell_sentinel"
    "\<not> endswith (framed ''delete the folder'' True False) code_sentinel"
    "\<not> endswith ''hi'' shell_sentinel" "\<not> endswith ''hi'' code_sentinel"
    by (simp_all add: framed_def endswith_def code_sentinel_def shell_sentinel_def)
  have res: "resume_chat demo_env ''sh'' False False (terminal [] []) =
      (Inr (True, False), terminal [] [] \<lparr>trace := chat_history_events ''sh'' False False\<rparr>)"
    using sh(2) ends by (simp add: resume_chat_first terminal_def)
  from stored_mode_adopted [OF sh, of False False "terminal [] []" None 1 1 True]
       stored_mode_adopted [OF talk, of True False "terminal [] []" None 1 1 True]
       sh talk ends res
  show ?thesis by (simp add: terminal_def)
qed

subsection \<open>A session without messages\<close>

text \<open>
  Claim C5, corrected. When the store says the session exists and \<open>get_messages\<close>
  yields no message, \<open>chat_mode\<close> fails, but not with an error of a check: the module
  never tests whether the history is empty, and what ends the call is the \<open>IndexError\<close>
  of \<open>chat_history[0]\<close> on line 68, uncaught. It does so whatever the prompt and the
  flags are, after the stored history has been shown, before any input is read and before
  any completion is requested. Through \<open>main\<close> the error leaves the program, and the
  exit status is 1 when the options are in range (2 when they are not, \<open>main\<close> not
  having run).
\<close>

theorem empty_history_fails:
  assumes "chat_exists env chat" and "get_messages env chat = []"
  shows "chat_mode env prompt temp top_p chat shell code cache w =
           (Inl IndexError, w\<lparr>trace := trace w @ chat_history_events chat shell code\<rparr>)
       \<and> \<not> raised_by_check IndexError
       \<and> completion_calls (trace w @ chat_history_events chat shell code)
           = completion_calls (trace w)
       \<and> (chat \<noteq> [] \<longrightarrow>
            fst (main env prompt temp top_p (Some chat) False shell code editor cache w)
              = Inl IndexError
          \<and> fst (entry_point env prompt temp top_p (Some chat) False shell code editor cache w)
              = (if in_range temp top_p then 1 else 2))"
proof -
  have cm: "chat_mode env p temp top_p chat shell code cache v =
      (Inl IndexError, v\<lparr>trace := trace v @ chat_history_events chat shell code\<rparr>)" for p v
    using assms by (simp add: chat_mode_def resume_chat_empty)
  have "fst (main env prompt temp top_p (Some chat) False shell code editor cache w) = Inl IndexError"
    if "chat \<noteq> []"
    by (simp add: main_chat [OF that] cm)
  then show ?thesis
    by (simp add: cm entry_point_status exit_status_def)
qed

theorem empty_history_fails_witness:
  "chat_exists demo_env ''bad'' \<and> get_messages demo_env ''bad'' = []
   \<and> chat_mode demo_env (Some ''continue'') 1 1 ''bad'' False False True (terminal [''more''] []) =
       (Inl IndexError,
        \<lparr>stdin = [''more''], answers = [], trace = chat_history_events ''bad'' False False\<rparr>)
   \<and> fst (entry_point demo_env (Some ''continue'') 1 1 (Some ''bad'') False False False False True
            (terminal [''more''] [])) = 1
   \<and> fst (entry_point demo_env (Some ''continue'') 2 1 (Some ''bad'') False False False False True
            (terminal [''more''] [])) = 2"
proof -
  have bad: "chat_exists demo_env ''bad''" "get_messages demo_env ''bad'' = []"
    by (simp_all add: demo_env_def)
  from empty_history_fails [OF bad, of "Some ''continue''" 1 1 False False True
         "terminal [''more''] []" False]
       empty_history_fails [OF bad, of "Some ''continue''" 2 1 False False True
         "terminal [''more''] []" False] bad
  show ?thesis by (simp add: terminal_def in_range_def)
qed

text \<open>
  The claim as it was stated fails at the session \<open>bad\<close>: the error that ends
  \<open>chat_mode\<close> there is \<open>IndexError\<close>, which no check of the module raises.
\<close>

theorem empty_history_counterexample:
  "chat_exists demo_env ''bad'' \<and> get_messages demo_env ''bad'' = []
   \<and> fst (chat_mode demo_env (Some ''continue'') 1 1 ''bad'' False False True
            (terminal [''more''] [])) = Inl IndexError
   \<and> \<not> raised_by_check IndexError"
proof -
  have bad: "chat_exists demo_env ''bad''" "get_messages demo_env ''bad'' = []"
    by (simp_all add: demo_env_def)
  then show ?thesis
    by (simp add: chat_mode_def resume_chat_empty)
qed

subsection \<open>The chat loop\<close>

text \<open>
  Claim C8. The loop of \<open>chat_mode\<close> never ends normally. Whatever the collaborators
  answer and whatever lines the user types, the loop ends only with the \<open>Abort\<close> that
  \<open>typer.prompt\<close> raises once the input is closed, and by then every line typed has been
  read: no line makes the loop stop. Every pass requests a completion, a pass takes at
  most two lines that are not empty (empty lines are asked again), and outside shell mode
  every such line is followed by one more request. So \<open>chat_mode\<close> never returns a
  value.
\<close>

theorem chat_loop_never_returns:
  "fst (chat_mode env prompt temp top_p chat shell code cache w) \<noteq> Inr ()
   \<and> (\<exists>w'. chat_loop env temp top_p chat shell' code' cache prompt' w = (Inl Abort, w')
          \<and> stdin w' = []
          \<and> length (filter (\<lambda>l. l \<noteq> []) (stdin w)) + 2 * completion_calls (trace w)
              < 2 * completion_calls (trace w')
          \<and> (\<not> shell' \<longrightarrow>
                completion_calls (trace w')
                  = completion_calls (trace w) + length (filter (\<lambda>l. l \<noteq> []) (stdin w)) + 1))"
proof
  from chat_mode_raises [of env prompt temp top_p chat shell code cache w]
  show "fst (chat_mode env prompt temp top_p chat shell code cache w) \<noteq> Inr ()"
    by auto
next
  show "\<exists>w'. chat_loop env temp top_p chat shell' code' cache prompt' w = (Inl Abort, w')
          \<and> stdin w' = []
          \<and> length (filter (\<lambda>l. l \<noteq> []) (stdin w)) + 2 * completion_calls (trace w)
              < 2 * completion_calls (trace w')
          \<and> (\<not> shell' \<longrightarrow>
                completion_calls (trace w')
                  = completion_calls (trace w) + length (filter (\<lambda>l. l \<noteq> []) (stdin w)) + 1)"
    by (rule chat_loop_aborts)
qed

text \<open>
  A plain chat in which the user types "more", an empty line, "quit" and "exit": four
  requests. With two empty lines only, there is the one request of the first pass.
\<close>

theorem chat_loop_never_returns_witness:
  "fst (chat_loop demo_env 1 1 ''talk'' False False True ''hi''
          (terminal [''more'', [], ''quit'', ''exit''] [])) = Inl Abort
   \<and> completion_calls
        (trace (snd (chat_loop demo_env 1 1 ''talk'' False False True ''hi''
                       (terminal [''more'', [], ''quit'', ''exit''] [])))) = 4
   \<and> completion_calls
        (trace (snd (chat_loop demo_env 1 1 ''talk'' False False True ''hi''
                       (terminal [[], []] [])))) = 1"
  using chat_loop_never_returns [where env = demo_env and temp = 1 and top_p = 1
      and chat = "''talk''" and shell' = False and code' = False and cache = True
      and prompt' = "''hi''" and w = "terminal [''more'', [], ''quit'', ''exit''] []"
      and prompt = None and shell = False and code = False]
    chat_loop_never_returns [where env = demo_env and temp = 1 and top_p = 1
      and chat = "''talk''" and shell' = False and code' = False and cache = True
      and prompt' = "''hi''" and w = "terminal [[], []] []"
      and prompt = None and shell = False and code = False]
  by (auto simp: terminal_def)

subsection \<open>The choice after a shell command\<close>

text \<open>
  Claim C4. In a shell chat, let \<open>line\<close> be the user's input at the choice prompt, that
  is the first line typed there that is not empty. When it is exactly "execute" or "e",
  the accumulated response is passed to \<open>os.system\<close> once, and then the prompt "Enter
  your prompt" is asked; the next user turn is built from the first line typed there that
  is not empty, whatever it is, and not from the choice. For any other input nothing is
  passed to \<open>os.system\<close> and the input itself becomes the next user turn.
\<close>

theorem shell_choice:
  assumes "stdin w = blanks @ line # rest" and "set blanks \<subseteq> {[]}" and "line \<noteq> []"
  shows "(line = ''execute'' \<or> line = ''e'' \<longrightarrow>
            chat_turn env temp top_p chat True code cache prompt w =
              (case dropWhile (\<lambda>l. l = []) rest of
                 [] \<Rightarrow>
                   (Inl Abort,
                    w\<lparr>stdin := [],
                      trace := trace w
                        @ exchange env (trace w) (user_request temp top_p cache (Some chat) prompt)
                        @ [RichPrint (prompt_text True)]
                        @ asked [] False (blanks @ [line])
                        @ [Echo [],
                           System (concat (client_get_completion env (trace w)
                                             (user_request temp top_p cache (Some chat) prompt))),
                           Echo [], PrintRule None]
                        @ asked ''Enter your prompt'' True rest
                        @ [Prompt ''Enter your prompt'' True]\<rparr>)
               | fresh # rest' \<Rightarrow>
                   (Inr (make_prompt_chat_mode env fresh True code),
                    w\<lparr>stdin := rest',
                      trace := trace w
                        @ exchange env (trace w) (user_request temp top_p cache (Some chat) prompt)
                        @ [RichPrint (prompt_text True)]
                        @ asked [] False (blanks @ [line])
                        @ [Echo [],
                           System (concat (client_get_completion env (trace w)
                                             (user_request temp top_p cache (Some chat) prompt))),
                           Echo [], PrintRule None]
                        @ asked ''Enter your prompt'' True
                            (takeWhile (\<lambda>l. l = []) rest @ [fresh])\<rparr>))
          \<and> system_calls (trace (snd (chat_turn env temp top_p chat True code cache prompt w))) =
              system_calls (trace w)
                @ [concat (client_get_completion env (trace w)
                             (user_request temp top_p cache (Some chat) prompt))])
       \<and> (line \<noteq> ''execute'' \<and> line \<noteq> ''e'' \<longrightarrow>
            chat_turn env temp top_p chat True code cache prompt w =
              (Inr (make_prompt_chat_mode env line True code),
               w\<lparr>stdin := rest,
                 trace := trace w
                   @ exchange env (trace w) (user_request temp top_p cache (Some chat) prompt)
                   @ [RichPrint (prompt_text True)]
                   @ asked [] False (blanks @ [line])\<rparr>)
          \<and> system_calls (trace (snd (chat_turn env temp top_p chat True code cache prompt w))) =
              system_calls (trace w))"
proof (intro conjI impI)
  assume ex: "line = ''execute'' \<or> line = ''e''"
  show turn: "chat_turn env temp top_p chat True code cache prompt w =
      (case dropWhile (\<lambda>l. l = []) rest of
         [] \<Rightarrow>
           (Inl Abort,
            w\<lparr>stdin := [],
              trace := trace w
                @ exchange env (trace w) (user_request temp top_p cache (Some chat) prompt)
                @ [RichPrint (prompt_text True)]
                @ asked [] False (blanks @ [line])
                @ [Echo [],
                   System (concat (client_get_completion env (trace w)
                                     (user_request temp top_p cache (Some chat) prompt))),
                   Echo [], PrintRule None]
                @ asked ''Enter your prompt'' True rest
                @ [Prompt ''Enter your prompt'' True]\<rparr>)
       | fresh # rest' \<Rightarrow>
           (Inr (make_prompt_chat_mode env fresh True code),
            w\<lparr>stdin := rest',
              trace := trace w
                @ exchange env (trace w) (user_request temp top_p cache (Some chat) prompt)
                @ [RichPrint (prompt_text True)]
                @ asked [] False (blanks @ [line])
                @ [Echo [],
                   System (concat (client_get_completion env (trace w)
                                     (user_request temp top_p cache (Some chat) prompt))),
                   Echo [], PrintRule None]
                @ asked ''Enter your prompt'' True
                    (takeWhile (\<lambda>l. l = []) rest @ [fresh])\<rparr>))"
  proof (cases "dropWhile (\<lambda>l. l = []) rest")
    case Nil
    then have blank: "set rest \<subseteq> {[]}" by auto
    show ?thesis
      unfolding Nil by (simp add: chat_turn_execute_eof [OF assms(1,2) _ ex blank, of True])
  next
    case (Cons fresh rest')
    have split: "rest = takeWhile (\<lambda>l. l = []) rest @ fresh # rest'"
      using Cons takeWhile_dropWhile_id [of "\<lambda>l. l = []" rest] by simp
    have blank: "set (takeWhile (\<lambda>l. l = []) rest) \<subseteq> {[]}"
      by (auto dest: set_takeWhileD)
    have fresh: "fresh \<noteq> []"
      using Cons hd_dropWhile [of "\<lambda>l. l = []" rest] by auto
    have input: "stdin w = blanks @ line # takeWhile (\<lambda>l. l = []) rest @ fresh # rest'"
      using assms(1) split by simp
    show ?thesis
      unfolding Cons
      by (simp add: chat_turn_execute [OF input assms(2) _ ex blank fresh, of True])
  qed
  show "system_calls (trace (snd (chat_turn env temp top_p chat True code cache prompt w))) =
      system_calls (trace w)
        @ [concat (client_get_completion env (trace w)
                     (user_request temp top_p cache (Some chat) prompt))]"
    by (simp add: turn split: list.splits)
next
  assume "line \<noteq> ''execute'' \<and> line \<noteq> ''e''"
  then have no: "\<not> (True \<and> (line = ''execute'' \<or> line = ''e''))" by simp
  from chat_turn_revise [OF assms no]
  show turn: "chat_turn env temp top_p chat True code cache prompt w =
      (Inr (make_prompt_chat_mode env line True code),
       w\<lparr>stdin := rest,
         trace := trace w
           @ exchange env (trace w) (user_request temp top_p cache (Some chat) prompt)
           @ [RichPrint (prompt_text True)]
           @ asked [] False (blanks @ [line])\<rparr>)" .
  show "system_calls (trace (snd (chat_turn env temp top_p chat True code cache prompt w))) =
      system_calls (trace w)"
    by (simp add: turn)
qed

text \<open>
  The specification's scenario: the response is "rm -rf /tmp/foo" and the user types "e",
  then "list it". An empty line before the "e", or between the "e" and the fresh prompt,
  changes nothing: the command is executed once and the line that is not empty is the next
  user turn. With "E" instead, nothing is executed and "E" is the next user turn. With "e"
  twice, the second "e" is read as the fresh prompt.
\<close>

theorem shell_choice_witness:
  "system_calls (trace (snd (chat_turn demo_env 1 1 ''sh'' True False True ''delete it''
                              (terminal [''e'', ''list it''] [])))) = [''rm -rf /tmp/foo'']
   \<and> fst (chat_turn demo_env 1 1 ''sh'' True False True ''delete it''
            (terminal [''e'', ''list it''] [])) = Inr (framed ''list it'' True False)
   \<and> chat_turn demo_env 1 1 ''sh'' True False True ''delete it'' (terminal [[], ''e'', [], ''x''] []) =
       (Inr (framed ''x'' True False),
        \<lparr>stdin = [], answers = [],
           trace = exchange demo_env [] (user_request 1 1 True (Some ''sh'') ''delete it'')
             @ [RichPrint (prompt_text True), Prompt [] False, Input [], Prompt [] False,
                Input ''e'', Echo [], System ''rm -rf /tmp/foo'', Echo [], PrintRule None,
                Prompt ''Enter your prompt'' True, Input [],
                Prompt ''Enter your prompt'' True, Input ''x'']\<rparr>)
   \<and> system_calls (trace (snd (chat_turn demo_env 1 1 ''sh'' True False True ''delete it''
                              (terminal [''E'', ''list it''] [])))) = []
   \<and> fst (chat_turn demo_env 1 1 ''sh'' True False True ''delete it''
            (terminal [''E'', ''list it''] [])) = Inr (framed ''E'' True False)
   \<and> fst (chat_turn demo_env 1 1 ''sh'' True False True ''delete it''
            (terminal [''e'', ''e''] [])) = Inr (framed ''e'' True False)
   \<and> system_calls (trace (snd (chat_turn demo_env 1 1 ''sh'' True False True ''delete it''
                              (terminal [''e'', ''e''] [])))) = [''rm -rf /tmp/foo'']"
  using shell_choice [of "terminal [''e'', ''list it''] []" "[]" "''e''" "[''list it'']"
                         demo_env 1 1 "''sh''" False True "''delete it''"]
        shell_choice [of "terminal [[], ''e'', [], ''x''] []" "[[]]" "''e''" "[[], ''x'']"
                         demo_env 1 1 "''sh''" False True "''delete it''"]
        shell_choice [of "terminal [''E'', ''list it''] []" "[]" "''E''" "[''list it'']"
                         demo_env 1 1 "''sh''" False True "''delete it''"]
        shell_choice [of "terminal [''e'', ''e''] []" "[]" "''e''" "[''e'']"
                         demo_env 1 1 "''sh''" False True "''delete it''"]
  by (simp add: terminal_def demo_env_def)

text \<open>
  Claim C9. In a shell chat, after the user has chosen to execute and has typed the fresh
  prompt (the first line after the choice that is not empty), line 116 wraps that prompt
  with \<open>make_prompt.chat_mode\<close> and \<open>shell = True\<close>, as it wraps a revision, and the
  loop goes on with the wrapped text: the next request carries the wrapped prompt, not the
  line as typed.
\<close>

theorem post_execute_rewrapped:
  assumes "stdin w = blanks @ line # blanks' @ fresh # rest"
    and "set blanks \<subseteq> {[]}" and "line = ''execute'' \<or> line = ''e''"
    and "set blanks' \<subseteq> {[]}" and "fresh \<noteq> []"
  shows "\<exists>w'. chat_turn env temp top_p chat True code cache prompt w =
                (Inr (make_prompt_chat_mode env fresh True code), w')
            \<and> stdin w' = rest
            \<and> chat_loop env temp top_p chat True code cache prompt w =
                chat_loop env temp top_p chat True code cache
                  (make_prompt_chat_mode env fresh True code) w'
            \<and> (\<exists>more. trace (snd (chat_turn env temp top_p chat True code cache
                                      (make_prompt_chat_mode env fresh True code) w')) =
                  trace w'
                    @ [ClientGetCompletion (config_get env ''OPENAI_API_HOST'')
                         (config_get env ''OPENAI_API_KEY'')
                         (user_request temp top_p cache (Some chat)
                            (make_prompt_chat_mode env fresh True code))]
                    @ more)
            \<and> (\<forall>revision. revision \<noteq> [] \<and> revision \<noteq> ''execute'' \<and> revision \<noteq> ''e'' \<longrightarrow>
                  fst (chat_turn env temp top_p chat True code cache prompt
                         (w\<lparr>stdin := revision # rest\<rparr>)) =
                    Inr (make_prompt_chat_mode env revision True code))"
proof -
  define w' where "w' = w\<lparr>stdin := rest,
      trace := trace w
        @ exchange env (trace w) (user_request temp top_p cache (Some chat) prompt)
        @ [RichPrint (prompt_text True)]
        @ asked [] False (blanks @ [line])
        @ [Echo [],
           System (concat (client_get_completion env (trace w)
                             (user_request temp top_p cache (Some chat) prompt))),
           Echo [], PrintRule None]
        @ asked ''Enter your prompt'' True (blanks' @ [fresh])\<rparr>"
  have turn: "chat_turn env temp top_p chat True code cache prompt w =
      (Inr (make_prompt_chat_mode env fresh True code), w')"
    unfolding w'_def by (rule chat_turn_execute [OF assms(1,2) _ assms(3,4,5)]) simp
  have rest: "stdin w' = rest"
    by (simp add: w'_def)
  have loop: "chat_loop env temp top_p chat True code cache prompt w =
      chat_loop env temp top_p chat True code cache (make_prompt_chat_mode env fresh True code) w'"
    by (subst chat_loop.simps) (simp add: turn)
  from chat_turn_begins [of env temp top_p chat True code cache
      "make_prompt_chat_mode env fresh True code" w']
  obtain more0 where "trace (snd (chat_turn env temp top_p chat True code cache
                              (make_prompt_chat_mode env fresh True code) w')) =
      trace w' @ exchange env (trace w')
         (user_request temp top_p cache (Some chat) (make_prompt_chat_mode env fresh True code))
        @ more0"
    by blast
  then have "trace (snd (chat_turn env temp top_p chat True code cache
                              (make_prompt_chat_mode env fresh True code) w')) =
      trace w'
        @ [ClientGetCompletion (config_get env ''OPENAI_API_HOST'')
             (config_get env ''OPENAI_API_KEY'')
             (user_request temp top_p cache (Some chat)
                (make_prompt_chat_mode env fresh True code))]
        @ (map Secho (client_get_completion env (trace w')
             (user_request temp top_p cache (Some chat)
                (make_prompt_chat_mode env fresh True code))) @ [SechoNewline] @ more0)"
    by (simp add: exchange_def)
  then have next_request: "\<exists>more. trace (snd (chat_turn env temp top_p chat True code cache
                              (make_prompt_chat_mode env fresh True code) w')) =
      trace w'
        @ [ClientGetCompletion (config_get env ''OPENAI_API_HOST'')
             (config_get env ''OPENAI_API_KEY'')
             (user_request temp top_p cache (Some chat)
                (make_prompt_chat_mode env fresh True code))]
        @ more" ..
  have revise: "fst (chat_turn env temp top_p chat True code cache prompt
                       (w\<lparr>stdin := revision # rest\<rparr>)) =
      Inr (make_prompt_chat_mode env revision True code)"
    if "revision \<noteq> [] \<and> revision \<noteq> ''execute'' \<and> revision \<noteq> ''e''" for revision
  proof -
    have input: "stdin (w\<lparr>stdin := revision # rest\<rparr>) = [] @ revision # rest" by simp
    have none: "set [] \<subseteq> {[]::string}" by simp
    from that have ne: "revision \<noteq> []"
      and no: "\<not> (True \<and> (revision = ''execute'' \<or> revision = ''e''))" by simp_all
    show ?thesis by (simp add: chat_turn_revise [OF input none ne no])
  qed
  show ?thesis
  proof (intro exI [of _ w'] conjI allI impI)
    show "chat_turn env temp top_p chat True code cache prompt w =
        (Inr (make_prompt_chat_mode env fresh True code), w')" by (rule turn)
    show "stdin w' = rest" by (rule rest)
    show "chat_loop env temp top_p chat True code cache prompt w =
        chat_loop env temp top_p chat True code cache (make_prompt_chat_mode env fresh True code) w'"
      by (rule loop)
    show "\<exists>more. trace (snd (chat_turn env temp top_p chat True code cache
                              (make_prompt_chat_mode env fresh True code) w')) =
        trace w'
          @ [ClientGetCompletion (config_get env ''OPENAI_API_HOST'')
               (config_get env ''OPENAI_API_KEY'')
               (user_request temp top_p cache (Some chat)
                  (make_prompt_chat_mode env fresh True code))]
          @ more" by (rule next_request)
  next
    fix revision
    assume "revision \<noteq> [] \<and> revision \<noteq> ''execute'' \<and> revision \<noteq> ''e''"
    then show "fst (chat_turn env temp top_p chat True code cache prompt
                       (w\<lparr>stdin := revision # rest\<rparr>)) =
        Inr (make_prompt_chat_mode env revision True code)" by (rule revise)
  qed
qed

text \<open>
  After "e" and an empty line, the fresh prompt "list it" goes out with the command
  sentinel appended by the prompt builder, and "thanks" is left for the next pass.
\<close>

theorem post_execute_rewrapped_witness:
  "fst (chat_turn demo_env 1 1 ''sh'' True False True ''delete it''
          (terminal [''e'', [], ''list it'', ''thanks''] []))
     = Inr (''list it'' @ shell_sentinel)
   \<and> stdin (snd (chat_turn demo_env 1 1 ''sh'' True False True ''delete it''
                   (terminal [''e'', [], ''list it'', ''thanks''] []))) = [''thanks'']"
proof -
  have "stdin (terminal [''e'', [], ''list it'', ''thanks''] [])
      = [] @ ''e'' # [[]] @ ''list it'' # [''thanks'']"
    by (simp add: terminal_def)
  from post_execute_rewrapped [OF this, of demo_env 1 1 "''sh''" False True "''delete it''"]
  obtain w' where "chat_turn demo_env 1 1 ''sh'' True False True ''delete it''
        (terminal [''e'', [], ''list it'', ''thanks''] []) =
      (Inr (make_prompt_chat_mode demo_env ''list it'' True False), w')"
    and "stdin w' = [''thanks'']"
    by auto
  then show ?thesis by (simp add: demo_env_def framed_def)
qed

subsection \<open>Streaming\<close>

text \<open>
  Claim C3. The streaming loop writes every fragment once, in the order of arrival, and
  leaves in the buffer the concatenation of the fragments. In a chat turn and in the
  single-shot path the events after the request are exactly one \<open>Secho\<close> for each
  fragment the client yielded, in order, and a command passed to \<open>os.system\<close> afterwards
  is that concatenation. (Nothing in this module appends to the session; the client does.)
\<close>

theorem streaming_faithful:
  "stream_words frags [] w = (concat frags, w\<lparr>trace := trace w @ map Secho frags\<rparr>)
   \<and> (\<exists>more. trace (snd (chat_turn env temp top_p chat shell code cache prompt w)) =
          trace w
            @ [ClientGetCompletion (config_get env ''OPENAI_API_HOST'')
                 (config_get env ''OPENAI_API_KEY'')
                 (user_request temp top_p cache (Some chat) prompt)]
            @ map Secho (client_get_completion env (trace w)
                           (user_request temp top_p cache (Some chat) prompt))
            @ [SechoNewline] @ more
        \<and> set (system_calls more)
            \<subseteq> {concat (client_get_completion env (trace w)
                          (user_request temp top_p cache (Some chat) prompt))})
   \<and> ((chat' = None \<or> chat' = Some []) \<and> \<not> list_chat \<and> \<not> (py_not prompt' \<and> \<not> editor) \<longrightarrow>
        (\<exists>more. trace (snd (main env prompt' temp top_p chat' list_chat shell code editor cache w)) =
           trace (if editor then emit EditedPrompt w else w)
             @ [ClientGetCompletion (config_get env ''OPENAI_API_HOST'')
                  (config_get env ''OPENAI_API_KEY'')
                  (user_request temp top_p cache chat'
                     (make_prompt_initial env
                        (if editor then Some (get_edited_prompt env) else prompt') shell code))]
             @ map Secho (client_get_completion env
                            (trace (if editor then emit EditedPrompt w else w))
                            (user_request temp top_p cache chat'
                               (make_prompt_initial env
                                  (if editor then Some (get_edited_prompt env) else prompt')
                                  shell code)))
             @ [SechoNewline] @ more
         \<and> set (system_calls more)
             \<subseteq> {concat (client_get_completion env
                            (trace (if editor then emit EditedPrompt w else w))
                            (user_request temp top_p cache chat'
                               (make_prompt_initial env
                                  (if editor then Some (get_edited_prompt env) else prompt')
                                  shell code)))}))"
proof (intro conjI impI)
  show "stream_words frags [] w = (concat frags, w\<lparr>trace := trace w @ map Secho frags\<rparr>)"
    by (simp add: stream_words_eq)
next
  from chat_turn_executes [of env temp top_p chat shell code cache prompt w]
  show "\<exists>more. trace (snd (chat_turn env temp top_p chat shell code cache prompt w)) =
          trace w
            @ [ClientGetCompletion (config_get env ''OPENAI_API_HOST'')
                 (config_get env ''OPENAI_API_KEY'')
                 (user_request temp top_p cache (Some chat) prompt)]
            @ map Secho (client_get_completion env (trace w)
                           (user_request temp top_p cache (Some chat) prompt))
            @ [SechoNewline] @ more
        \<and> set (system_calls more)
            \<subseteq> {concat (client_get_completion env (trace w)
                          (user_request temp top_p cache (Some chat) prompt))}"
    by (simp add: exchange_def)
next
  assume single: "(chat' = None \<or> chat' = Some []) \<and> \<not> list_chat \<and> \<not> (py_not prompt' \<and> \<not> editor)"
  define w1 where "w1 = (if editor then emit EditedPrompt w else w)"
  define req where "req = user_request temp top_p cache chat'
      (make_prompt_initial env (if editor then Some (get_edited_prompt env) else prompt') shell code)"
  define full where "full = client_get_completion env (trace w1) req"
  from single have a: "chat' = None \<or> chat' = Some []" "\<not> list_chat"
    "\<not> (py_not prompt' \<and> \<not> editor)" by simp_all
  note run = main_single_shot [OF a w1_def req_def full_def]
  have "\<exists>more. trace (snd (main env prompt' temp top_p chat' list_chat shell code editor cache w)) =
          trace w1 @ exchange env (trace w1) req @ more
        \<and> set (system_calls more) \<subseteq> {concat full}"
    by (cases "answers w") (simp_all add: run)
  then show "\<exists>more. trace (snd (main env prompt' temp top_p chat' list_chat shell code editor cache w)) =
           trace (if editor then emit EditedPrompt w else w)
             @ [ClientGetCompletion (config_get env ''OPENAI_API_HOST'')
                  (config_get env ''OPENAI_API_KEY'')
                  (user_request temp top_p cache chat'
                     (make_prompt_initial env
                        (if editor then Some (get_edited_prompt env) else prompt') shell code))]
             @ map Secho (client_get_completion env
                            (trace (if editor then emit EditedPrompt w else w))
                            (user_request temp top_p cache chat'
                               (make_prompt_initial env
                                  (if editor then Some (get_edited_prompt env) else prompt')
                                  shell code)))
             @ [SechoNewline] @ more
         \<and> set (system_calls more)
             \<subseteq> {concat (client_get_completion env
                            (trace (if editor then emit EditedPrompt w else w))
                            (user_request temp top_p cache chat'
                               (make_prompt_initial env
                                  (if editor then Some (get_edited_prompt env) else prompt')
                                  shell code)))}"
    unfolding w1_def req_def full_def exchange_def by simp
qed



text \<open>
  A single-shot shell request answered with the fragments "rm -rf" and " /tmp/foo", which
  the user confirms.
\<close>

theorem streaming_faithful_witness:
  "trace (snd (main demo_env (Some ''delete it'') 1 1 None False True False False True
                 (terminal [] [True]))) =
     [ClientGetCompletion ''https://api.openai.com'' ''sk-0''
        (user_request 1 1 True None (''delete it'' @ shell_sentinel)),
      Secho ''rm -rf'', Secho '' /tmp/foo'', SechoNewline,
      Confirm ''Execute shell command?'', Answer True, System ''rm -rf /tmp/foo'']"
proof -
  have run: "main demo_env (Some ''delete it'') 1 1 None False True False False True
      (terminal [] [True]) =
    (Inr (), \<lparr>stdin = [], answers = [],
       trace = [ClientGetCompletion ''https://api.openai.com'' ''sk-0''
                  (user_request 1 1 True None (''delete it'' @ shell_sentinel)),
                Secho ''rm -rf'', Secho '' /tmp/foo'', SechoNewline,
                Confirm ''Execute shell command?'', Answer True, System ''rm -rf /tmp/foo'']\<rparr>)"
    by (simp add: main_def py_not_def get_completion_eq typer_confirm_def emit_def terminal_def
          demo_env_def framed_def)
  from streaming_faithful [of "[''rm -rf'', '' /tmp/foo'']" "terminal [] [True]" demo_env 1 1
         "''sh''" True False True "''delete it''" None False "Some ''delete it''" False]
  show ?thesis by (simp add: run)
qed


subsection \<open>The single-shot path\<close>

lemma Answer_notin_exchange [simp]: "Answer b \<notin> set (exchange env tr req)"
  by (auto simp: exchange_def)

text \<open>
  Claim C6. In an invocation without a chat id, something is passed to \<open>os.system\<close> if
  and only if \<open>shell\<close> is set, \<open>code\<close> is not, and the user answers yes to the
  confirmation; that confirmation is asked only when the run reaches the end of the
  stream with \<open>shell\<close> set and \<open>code\<close> not set. At most one command is executed, and
  none when \<open>code\<close> is set or the user declines.
\<close>

theorem single_shot_execute:
  assumes "chat = None \<or> chat = Some []"
  shows "\<exists>new. trace (snd (main env prompt temp top_p chat list_chat shell code editor cache w)) =
                 trace w @ new
            \<and> (system_calls new \<noteq> [] \<longleftrightarrow> shell \<and> \<not> code \<and> Answer True \<in> set new)
            \<and> (Answer True \<in> set new \<longleftrightarrow>
                 \<not> list_chat \<and> \<not> (py_not prompt \<and> \<not> editor) \<and> shell \<and> \<not> code
                 \<and> (\<exists>bs. answers w = True # bs))
            \<and> length (system_calls new) \<le> 1
            \<and> (code \<or> (\<exists>bs. answers w = False # bs) \<longrightarrow> system_calls new = [])"
proof (cases "list_chat \<or> (py_not prompt \<and> \<not> editor)")
  case True
  then have "trace (snd (main env prompt temp top_p chat list_chat shell code editor cache w)) =
      trace w @ (if list_chat then [EchoChatIds] else [])"
    using assms by (auto simp: main_def)
  then show ?thesis using True
    by (intro exI [of _ "if list_chat then [EchoChatIds] else []"]) auto
next
  case False
  define w1 where "w1 = (if editor then emit EditedPrompt w else w)"
  define req where "req = user_request temp top_p cache chat
      (make_prompt_initial env (if editor then Some (get_edited_prompt env) else prompt) shell code)"
  define full where "full = client_get_completion env (trace w1) req"
  define pre where "pre = (if editor then [EditedPrompt] else []) @ exchange env (trace w1) req"
  from False have a: "\<not> list_chat" "\<not> (py_not prompt \<and> \<not> editor)" by simp_all
  note run = main_single_shot [OF assms a w1_def req_def full_def]
  have w1: "trace w1 @ exchange env (trace w1) req = trace w @ pre" "answers w1 = answers w"
    by (simp_all add: w1_def pre_def)
  have pre: "system_calls pre = []" "Answer True \<notin> set pre"
    by (simp_all add: pre_def)
  show ?thesis
  proof (cases "\<not> code \<and> shell")
    case False
    with run w1 have "trace (snd (main env prompt temp top_p chat list_chat shell code editor cache w))
        = trace w @ pre"
      by simp
    with pre False show ?thesis
      by (intro exI [of _ pre]) auto
  next
    case True
    show ?thesis
    proof (cases "answers w")
      case Nil
      with run w1 True
      have "trace (snd (main env prompt temp top_p chat list_chat shell code editor cache w))
          = trace w @ pre @ [Confirm ''Execute shell command?'']"
        by simp
      with pre Nil show ?thesis
        by (intro exI [of _ "pre @ [Confirm ''Execute shell command?'']"]) auto
    next
      case (Cons b bs)
      with run w1 True
      have "trace (snd (main env prompt temp top_p chat list_chat shell code editor cache w))
          = trace w @ pre @ [Confirm ''Execute shell command?'', Answer b]
              @ (if b then [System (concat full)] else [])"
        by simp
      with pre Cons True a show ?thesis
        by (intro exI [of _ "pre @ [Confirm ''Execute shell command?'', Answer b]
              @ (if b then [System (concat full)] else [])"]) auto
    qed
  qed
qed

text \<open>
  The specification's scenario: \<open>--shell\<close> without \<open>--code\<close>, and the user declines.
  Nothing is executed. With \<open>--code\<close> as well, the user is not even asked.
\<close>

theorem single_shot_execute_witness:
  "trace (snd (main demo_env (Some ''delete it'') 1 1 None False True True False True
                 (terminal [] [True]))) =
     [ClientGetCompletion ''https://api.openai.com'' ''sk-0''
        (user_request 1 1 True None (''delete it'' @ shell_sentinel)),
      Secho ''rm -rf'', Secho '' /tmp/foo'', SechoNewline]
   \<and> system_calls (trace (snd (main demo_env (Some ''delete it'') 1 1 None False True False False True
                               (terminal [] [False])))) = []
   \<and> Answer False \<in> set (trace (snd (main demo_env (Some ''delete it'') 1 1 None False True False
                                        False True (terminal [] [False]))))"
proof -
  have run: "main demo_env (Some ''delete it'') 1 1 None False True False False True
      (terminal [] [False]) =
    (Inr (), \<lparr>stdin = [], answers = [],
       trace = [ClientGetCompletion ''https://api.openai.com'' ''sk-0''
                  (user_request 1 1 True None (''delete it'' @ shell_sentinel)),
                Secho ''rm -rf'', Secho '' /tmp/foo'', SechoNewline,
                Confirm ''Execute shell command?'', Answer False]\<rparr>)"
    by (simp add: main_def py_not_def get_completion_eq typer_confirm_def emit_def terminal_def
          demo_env_def framed_def)
  have run_code: "main demo_env (Some ''delete it'') 1 1 None False True True False True
      (terminal [] [True]) =
    (Inr (), \<lparr>stdin = [], answers = [True],
       trace = [ClientGetCompletion ''https://api.openai.com'' ''sk-0''
                  (user_request 1 1 True None (''delete it'' @ shell_sentinel)),
                Secho ''rm -rf'', Secho '' /tmp/foo'', SechoNewline]\<rparr>)"
    by (simp add: main_def py_not_def get_completion_eq emit_def terminal_def
          demo_env_def framed_def)
  from single_shot_execute [of None demo_env "Some ''delete it''" 1 1 False True False False True
         "terminal [] [False]"]
       single_shot_execute [of None demo_env "Some ''delete it''" 1 1 False True True False True
         "terminal [] [True]"]
  show ?thesis by (simp add: run run_code)
qed

text \<open>
  Claim C7. In an invocation without a chat id, without \<open>--list-chat\<close> and without
  \<open>--editor\<close>, an absent or empty prompt makes \<open>main\<close> raise \<open>MissingParameter\<close> for
  PROMPT at once: the world is as it was (nothing printed, no completion requested), and
  the exit status is not zero.
\<close>

theorem missing_prompt:
  assumes "chat = None \<or> chat = Some []" and "py_not prompt" and "\<not> editor" and "\<not> list_chat"
  shows "main env prompt temp top_p chat list_chat shell code editor cache w =
           (Inl (MissingParameter ''PROMPT'' ''string''), w)
       \<and> fst (entry_point env prompt temp top_p chat list_chat shell code editor cache w) \<noteq> 0"
proof -
  from assms have "main env prompt temp top_p chat list_chat shell code editor cache w =
      (Inl (MissingParameter ''PROMPT'' ''string''), w)"
    by (auto simp: main_def)
  then show ?thesis
    by (simp add: entry_point_status exit_status_def)
qed

theorem missing_prompt_witness:
  "py_not None \<and> py_not (Some [])
   \<and> main demo_env None 1 1 None False True False False True (terminal [] [True]) =
       (Inl (MissingParameter ''PROMPT'' ''string''), terminal [] [True])
   \<and> entry_point demo_env (Some []) 1 1 None False False False False True (terminal [] []) =
       (2, terminal [] [])"
proof -
  have p: "py_not None" "py_not (Some [])"
    by (simp_all add: py_not_def)
  from missing_prompt [of None None False False demo_env 1 1 True False True "terminal [] [True]"]
       missing_prompt [of None "Some []" False False demo_env 1 1 False False True "terminal [] []"]
       p
  show ?thesis by (simp add: entry_point_def exit_status_def in_range_def)
qed

text \<open>
  Claim C10. With \<open>--editor\<close> and no chat id, an empty text from the editor raises no
  \<open>MissingParameter\<close>: the empty prompt is framed by \<open>make_prompt.initial\<close> and sent to
  the completion client.
\<close>

theorem editor_empty_prompt:
  assumes "chat = None \<or> chat = Some []" and "get_edited_prompt env = []"
  shows "(\<forall>hint ty. fst (main env prompt temp top_p chat False shell code True cache w)
                      \<noteq> Inl (MissingParameter hint ty))
       \<and> (\<exists>more. trace (snd (main env prompt temp top_p chat False shell code True cache w)) =
             trace w
               @ [EditedPrompt,
                  ClientGetCompletion (config_get env ''OPENAI_API_HOST'')
                    (config_get env ''OPENAI_API_KEY'')
                    (user_request temp top_p cache chat (make_prompt_initial env (Some []) shell code))]
               @ more)"
proof -
  define w1 where "w1 = (if True then emit EditedPrompt w else w)"
  define req where "req = user_request temp top_p cache chat
      (make_prompt_initial env (if True then Some (get_edited_prompt env) else prompt) shell code)"
  define full where "full = client_get_completion env (trace w1) req"
  have a: "\<not> False" "\<not> (py_not prompt \<and> \<not> True)" by simp_all
  note run = main_single_shot [OF assms(1) a w1_def req_def full_def]
  have req: "req = user_request temp top_p cache chat (make_prompt_initial env (Some []) shell code)"
    by (simp add: req_def assms(2))
  have w1: "trace w1 = trace w @ [EditedPrompt]"
    by (simp add: w1_def)
  have "fst (main env prompt temp top_p chat False shell code True cache w) \<noteq>
      Inl (MissingParameter hint ty)" for hint ty
    by (simp add: run split: list.splits)
  moreover have "\<exists>more. trace (snd (main env prompt temp top_p chat False shell code True cache w)) =
      trace w @ [EditedPrompt] @ exchange env (trace w1) req @ more"
    by (cases "answers w") (simp_all add: run w1)
  then have "\<exists>more. trace (snd (main env prompt temp top_p chat False shell code True cache w)) =
      trace w
        @ [EditedPrompt,
           ClientGetCompletion (config_get env ''OPENAI_API_HOST'')
             (config_get env ''OPENAI_API_KEY'')
             (user_request temp top_p cache chat (make_prompt_initial env (Some []) shell code))]
        @ more"
    by (auto simp: exchange_def req)
  ultimately show ?thesis by simp
qed

theorem editor_empty_prompt_witness:
  "get_edited_prompt demo_env = []
   \<and> main demo_env None 1 1 None False False False True True (terminal [] []) =
       (Inr (), \<lparr>stdin = [], answers = [],
          trace = [EditedPrompt,
                   ClientGetCompletion ''https://api.openai.com'' ''sk-0''
                     (user_request 1 1 True None []),
                   Secho ''rm -rf'', Secho '' /tmp/foo'', SechoNewline]\<rparr>)"
proof -
  have e: "get_edited_prompt demo_env = []"
    by (simp add: demo_env_def)
  have run: "main demo_env None 1 1 None False False False True True (terminal [] []) =
      (Inr (), \<lparr>stdin = [], answers = [],
         trace = [EditedPrompt,
                  ClientGetCompletion ''https://api.openai.com'' ''sk-0''
                    (user_request 1 1 True None []),
                  Secho ''rm -rf'', Secho '' /tmp/foo'', SechoNewline]\<rparr>)"
    by (simp add: main_def py_not_def get_completion_eq emit_def terminal_def
          demo_env_def framed_def)
  from editor_empty_prompt [OF _ e, of None None 1 1 False False True "terminal [] []"] e run
  show ?thesis by simp
qed

end
